theory Spec2Isabelle
  imports Main "HOL-Library.Word"
begin

unbundle bit_operations_syntax

section \<open>Data model\<close>

text \<open>
  A \<^verbatim>\<open>uint256\<close> is a blob of 32 bytes. It is modelled as a 256-bit word whose
  little-endian bytes are the bytes of the blob in memory order, so that
  \<^verbatim>\<open>uint256S("0x...")\<close> is the numeral written in the source and \<^verbatim>\<open>begin()..end()\<close>
  is \<open>uint256_bytes\<close>. \<^verbatim>\<open>int\<close>, \<^verbatim>\<open>int32_t\<close> and \<^verbatim>\<open>uint32_t\<close> are 32-bit words; the
  signed ones are read with \<open>sint\<close> and shifted with \<open>signed_drop_bit\<close>.
\<close>

type_synonym byte = "8 word"
type_synonym uint256 = "256 word"
type_synonym int32 = "32 word"
type_synonym uint32 = "32 word"
type_synonym int64 = "64 word"

definition uint256_bytes :: "uint256 \<Rightarrow> byte list" where
  "uint256_bytes w = map (\<lambda>i. ucast (drop_bit (8 * i) w)) [0..<32]"

subsection \<open>Transactions (primitives/transaction.h)\<close>

text \<open>
  Modelled from the spec: the transaction classes are declared in
  primitives/transaction.h, which is not part of the sources at hand. The fields are the
  ones the sources use (\<^verbatim>\<open>vin\<close>, \<^verbatim>\<open>vout\<close>, \<^verbatim>\<open>nVersion\<close>, \<^verbatim>\<open>prevout\<close>, \<^verbatim>\<open>scriptSig\<close>,
  \<^verbatim>\<open>nValue\<close>, \<^verbatim>\<open>scriptPubKey\<close>) together with the sequence number and the lock time of
  the wire format. A \<^verbatim>\<open>CTransaction\<close> exposes its identifier through \<^verbatim>\<open>GetHash()\<close>
  (the spec's \<^verbatim>\<open>tx_id()\<close>); it is the field \<open>tx_hash\<close> here. A \<^verbatim>\<open>CScript\<close> is its
  byte sequence.
\<close>

record COutPoint =
  prevout_hash :: uint256
  prevout_n :: uint32

record CTxIn =
  prevout :: COutPoint
  scriptSig :: "byte list"
  nSequence :: uint32

record CTxOut =
  nValue :: int64
  scriptPubKey :: "byte list"

record CMutableTransaction =
  vin :: "CTxIn list"
  vout :: "CTxOut list"
  tx_nVersion :: int32
  nLockTime :: uint32

record CTransaction = CMutableTransaction +
  tx_hash :: uint256

subsection \<open>Block headers and the AuxPoW appendix (primitives/block.h)\<close>

text \<open>
  \<^verbatim>\<open>CBlockHeader\<close> owns an optional \<^verbatim>\<open>CAuxPow\<close> (a shared pointer that may be null) and
  \<^verbatim>\<open>CAuxPow\<close> holds the parent \<^verbatim>\<open>CBlockHeader\<close> by value, so the two types are mutually
  recursive.
\<close>

datatype CBlockHeader = CBlockHeader
    (nVersion: int32)
    (hashPrevBlock: uint256)
    (hashMerkleRoot: uint256)
    (nTime: uint32)
    (nBits: uint32)
    (nNonce: uint32)
    (auxpow: "CAuxPow option")
and CAuxPow = CAuxPow
    (tx: CTransaction)
    (hashBlock: uint256)
    (vMerkleBranch: "uint256 list")
    (nIndex: int32)
    (vChainMerkleBranch: "uint256 list")
    (nChainIndex: int32)
    (parentBlock: CBlockHeader)

definition VERSION_AUXPOW :: int32 where
  "VERSION_AUXPOW = push_bit 8 1"

definition GetBaseVersion :: "CBlockHeader \<Rightarrow> int32" where
  "GetBaseVersion h = nVersion h AND 0xFF"

definition GetChainId :: "CBlockHeader \<Rightarrow> int32" where
  "GetChainId h = signed_drop_bit 16 (nVersion h)"

definition IsAuxpow :: "CBlockHeader \<Rightarrow> bool" where
  "IsAuxpow h \<longleftrightarrow> nVersion h AND VERSION_AUXPOW \<noteq> 0"

definition IsLegacy :: "CBlockHeader \<Rightarrow> bool" where
  "IsLegacy h \<longleftrightarrow> nVersion h = 1 \<or> (nVersion h = 2 \<and> GetChainId h = 0)"

subsection \<open>Consensus parameters (consensus/params.h)\<close>

text \<open>
  Heights, intervals and time spans are only compared, never computed with, so the
  \<^verbatim>\<open>int\<close>, \<^verbatim>\<open>uint32_t\<close> and \<^verbatim>\<open>int64_t\<close> fields that hold them are mathematical
  integers. \<^verbatim>\<open>powLimit\<close> is an \<^verbatim>\<open>arith_uint256\<close>, an unsigned 256-bit number.
\<close>

record Params =
  hashGenesisBlock :: uint256
  nSubsidyHalvingInterval :: int
  BIP34Height :: int
  BIP34Hash :: uint256
  BIP65Height :: int
  BIP66Height :: int
  CSVHeight :: int
  WitnessHeight :: int
  nCoinbaseMaturityBegin :: int
  CoinbaseMaturity240Height :: int
  powLimit :: uint256
  fPowAllowMinDifficultyBlocks :: bool
  nPowTargetSpacing :: int
  nPowTargetTimespanBegin :: int
  PowTargetTimespan60Height :: int
  nMinimumChainWork :: uint256
  defaultAssumeValid :: uint256
  nAuxpowChainId :: int32
  fStrictChainId :: bool
  DigishieldDifficultyCalculationHeight :: int
  SimplifiedRewardsHeight :: int
  DisallowLegacyBlocksHeight :: int

definition nCoinbaseMaturity :: "Params \<Rightarrow> int \<Rightarrow> int" where
  "nCoinbaseMaturity p Height =
     (if Height \<ge> CoinbaseMaturity240Height p then 240 else nCoinbaseMaturityBegin p)"

definition nPowTargetTimespan :: "Params \<Rightarrow> int \<Rightarrow> int" where
  "nPowTargetTimespan p Height =
     (if Height \<ge> PowTargetTimespan60Height p then 60 else nPowTargetTimespanBegin p)"

section \<open>Serialization and the header hash (primitives/block.h, primitives/block.cpp)\<close>

text \<open>
  Modelled from the spec: serialize.h and hash.h are not part of the sources at hand.
  Integers are written little-endian, a vector is written as its CompactSize length
  followed by its elements, and a stream has a type, an \<^verbatim>\<open>int\<close> of flags, of which
  \<^verbatim>\<open>SER_GETHASH\<close> marks the stream that computes a hash (the spec's hash-preimage
  stream). Only writing is modelled (\<^verbatim>\<open>ser_action.ForRead()\<close> is false).
\<close>

definition ser_uint32 :: "uint32 \<Rightarrow> byte list" where
  "ser_uint32 w = [ucast w, ucast (drop_bit 8 w), ucast (drop_bit 16 w), ucast (drop_bit 24 w)]"

definition le_bytes :: "nat \<Rightarrow> nat \<Rightarrow> byte list" where
  "le_bytes k n = map (\<lambda>i. of_nat (n div 256 ^ i)) [0..<k]"

definition WriteCompactSize :: "nat \<Rightarrow> byte list" where
  "WriteCompactSize n =
     (if n < 253 then [of_nat n]
      else if n \<le> 0xFFFF then 0xfd # le_bytes 2 n
      else if n \<le> 0xFFFFFFFF then 0xfe # le_bytes 4 n
      else 0xff # le_bytes 8 n)"

definition ser_vector_uint256 :: "uint256 list \<Rightarrow> byte list" where
  "ser_vector_uint256 v = WriteCompactSize (length v) @ concat (map uint256_bytes v)"

definition SER_NETWORK :: int32 where
  "SER_NETWORK = push_bit 0 1"

definition SER_DISK :: int32 where
  "SER_DISK = push_bit 1 1"

definition SER_GETHASH :: int32 where
  "SER_GETHASH = push_bit 2 1"

text \<open>
  \<^verbatim>\<open>CAuxPow::SerializationOp\<close>. The bytes of the transaction come from its own
  serializer, the parameter \<open>ser_tx\<close>.
\<close>

definition Serialize_CAuxPow :: "(CTransaction \<Rightarrow> byte list) \<Rightarrow> CAuxPow \<Rightarrow> byte list" where
  "Serialize_CAuxPow ser_tx a =
     ser_tx (tx a)
     @ uint256_bytes (hashBlock a)
     @ ser_vector_uint256 (vMerkleBranch a)
     @ ser_uint32 (nIndex a)
     @ ser_vector_uint256 (vChainMerkleBranch a)
     @ ser_uint32 (nChainIndex a)
     @ ser_uint32 (nVersion (parentBlock a))
     @ uint256_bytes (hashPrevBlock (parentBlock a))
     @ uint256_bytes (hashMerkleRoot (parentBlock a))
     @ ser_uint32 (nTime (parentBlock a))
     @ ser_uint32 (nBits (parentBlock a))
     @ ser_uint32 (nNonce (parentBlock a))"

text \<open>
  \<^verbatim>\<open>CBlockHeader::SerializationOp\<close> on a writing stream of type \<open>nType\<close>. The result is
  \<open>None\<close> where \<^verbatim>\<open>assert(auxpow)\<close> fails.
\<close>

definition Serialize_CBlockHeader ::
  "(CTransaction \<Rightarrow> byte list) \<Rightarrow> int32 \<Rightarrow> CBlockHeader \<Rightarrow> byte list option" where
  "Serialize_CBlockHeader ser_tx nType h =
     (let s = ser_uint32 (nVersion h)
            @ uint256_bytes (hashPrevBlock h)
            @ uint256_bytes (hashMerkleRoot h)
            @ ser_uint32 (nTime h)
            @ ser_uint32 (nBits h)
            @ ser_uint32 (nNonce h)
      in if nType AND SER_GETHASH = 0 then
           if IsAuxpow h then
             case auxpow h of
               None \<Rightarrow> None
             | Some a \<Rightarrow> Some (s @ Serialize_CAuxPow ser_tx a)
           else Some s
         else Some s)"

text \<open>
  Modelled from the spec: \<^verbatim>\<open>SerializeHash\<close> is declared in hash.h, which is not part of
  the sources at hand. The specification has \<^verbatim>\<open>hash(header) = dsha256(80-byte preimage)\<close>:
  the object is written to a hashing stream of type \<^verbatim>\<open>SER_GETHASH\<close> and the double
  SHA-256 \<open>H\<close> of the bytes written is returned.
\<close>

definition SerializeHash_CBlockHeader ::
  "(byte list \<Rightarrow> uint256) \<Rightarrow> (CTransaction \<Rightarrow> byte list) \<Rightarrow> CBlockHeader \<Rightarrow> uint256 option" where
  "SerializeHash_CBlockHeader H ser_tx h =
     map_option H (Serialize_CBlockHeader ser_tx SER_GETHASH h)"

text \<open>\<^verbatim>\<open>CBlockHeader::GetHash\<close> of block.cpp: \<^verbatim>\<open>return SerializeHash(*this)\<close>.\<close>

definition GetHash ::
  "(byte list \<Rightarrow> uint256) \<Rightarrow> (CTransaction \<Rightarrow> byte list) \<Rightarrow> CBlockHeader \<Rightarrow> uint256 option" where
  "GetHash H ser_tx h = SerializeHash_CBlockHeader H ser_tx h"

section \<open>The Merkle verifier and the expected index (primitives/block.cpp)\<close>

text \<open>
  \<^verbatim>\<open>Hash(a.begin, a.end, b.begin, b.end)\<close> is the double SHA-256 of the concatenation of
  the two ranges. The hash function lives in hash.h and the crypto library; every
  definition that hashes takes it as the parameter \<open>H\<close>, from bytes to a \<^verbatim>\<open>uint256\<close>.
  block__.cpp repeats \<^verbatim>\<open>CheckMerkleBranch\<close> and \<^verbatim>\<open>getExpectedIndex\<close> with the same
  text, so one definition of each stands for both files.
\<close>

fun CheckMerkleBranch_loop ::
  "(byte list \<Rightarrow> uint256) \<Rightarrow> uint256 \<Rightarrow> uint256 list \<Rightarrow> int32 \<Rightarrow> uint256" where
  "CheckMerkleBranch_loop H hash [] nIdx = hash"
| "CheckMerkleBranch_loop H hash (it # rest) nIdx =
     CheckMerkleBranch_loop H
       (if nIdx AND 1 \<noteq> 0 then H (uint256_bytes it @ uint256_bytes hash)
        else H (uint256_bytes hash @ uint256_bytes it))
       rest (signed_drop_bit 1 nIdx)"

definition CheckMerkleBranch ::
  "(byte list \<Rightarrow> uint256) \<Rightarrow> uint256 \<Rightarrow> uint256 list \<Rightarrow> int32 \<Rightarrow> uint256" where
  "CheckMerkleBranch H hash branch nIdx =
     (if nIdx = - 1 then 0 else CheckMerkleBranch_loop H hash branch nIdx)"

text \<open>
  \<^verbatim>\<open>getExpectedIndex\<close>: \<^verbatim>\<open>rand\<close> is a \<^verbatim>\<open>uint32_t\<close>, so the products and sums wrap, and
  adding the \<^verbatim>\<open>int\<close> chain id adds its bit pattern. \<^verbatim>\<open>1 << h\<close> is a shift of the \<^verbatim>\<open>int\<close>
  1: it is defined for \<open>h \<le> 30\<close> only, and the function has no value (\<open>None\<close>) beyond
  that. The remainder is unsigned and below \<open>2 ^ 30\<close>, so converting it to the returned
  \<^verbatim>\<open>int\<close> keeps its bits.
\<close>

definition getExpectedIndex :: "uint32 \<Rightarrow> int32 \<Rightarrow> nat \<Rightarrow> int32 option" where
  "getExpectedIndex nonce nChainId h =
     (let rand = nonce;
          rand = rand * 1103515245 + 12345;
          rand = rand + nChainId;
          rand = rand * 1103515245 + 12345
      in if h \<le> 30 then Some (rand mod push_bit h 1) else None)"

section \<open>The AuxPoW validator (primitives/block.cpp, primitives/block__.cpp)\<close>

text \<open>
  \<^verbatim>\<open>check\<close> returns \<^verbatim>\<open>error("...")\<close>, which logs the message and is \<^verbatim>\<open>false\<close>, or
  \<^verbatim>\<open>true\<close>. The verdict keeps which message it was; the constructors carry the names the
  specification gives to the messages. \<open>VinOutOfRange\<close> is not a message: it stands for
  the read \<^verbatim>\<open>tx->vin[0]\<close> on a transaction without inputs, which C++ leaves undefined.
  \<open>ShiftOutOfRange\<close> stands for \<^verbatim>\<open>getExpectedIndex\<close> without a value.
\<close>

datatype AuxError =
    NotAGenerate
  | ParentHasOurChainId
  | ChainBranchTooLong
  | MerkleRootIncorrect
  | MissingChainMerkleRoot
  | MultipleMergedMiningHeaders
  | HeaderNotJustBeforeRoot
  | RootMustStartInFirst20Bytes
  | ChainMerkleSizeMissing
  | MerkleBranchSizeMismatch
  | WrongIndex
  | VinOutOfRange
  | ShiftOutOfRange

fun error_message :: "AuxError \<Rightarrow> string" where
  "error_message NotAGenerate = ''AuxPow is not a generate''"
| "error_message ParentHasOurChainId = ''Aux POW parent has our chain ID''"
| "error_message ChainBranchTooLong = ''Aux POW chain merkle branch too long''"
| "error_message MerkleRootIncorrect = ''Aux POW merkle root incorrect''"
| "error_message MissingChainMerkleRoot =
     ''Aux POW missing chain merkle root in parent coinbase''"
| "error_message MultipleMergedMiningHeaders =
     ''Multiple merged mining headers in coinbase''"
| "error_message HeaderNotJustBeforeRoot =
     ''Merged mining header is not just before chain merkle root''"
| "error_message RootMustStartInFirst20Bytes =
     ''Aux POW chain merkle root must start in the first 20 bytes of the parent coinbase''"
| "error_message ChainMerkleSizeMissing =
     ''Aux POW missing chain merkle tree size and nonce in parent coinbase''"
| "error_message MerkleBranchSizeMismatch =
     ''Aux POW merkle branch size does not match parent coinbase''"
| "error_message WrongIndex = ''Aux POW wrong index''"
| "error_message VinOutOfRange = []"
| "error_message ShiftOutOfRange = []"

text \<open>
  \<^verbatim>\<open>std::search(first, last, s_first, s_last)\<close> as an offset from \<^verbatim>\<open>first\<close>: the offset of
  the first occurrence of the needle, or the length of the range (the iterator \<^verbatim>\<open>last\<close>)
  when there is none.
\<close>

fun search :: "'a list \<Rightarrow> 'a list \<Rightarrow> nat" where
  "search [] needle = 0"
| "search (x # xs) needle =
     (if take (length needle) (x # xs) = needle then 0 else Suc (search xs needle))"

definition pchMergedHdr :: "byte list" where
  "pchMergedHdr = [0xfa, 0xbe, 0x6d, 0x6d]"

text \<open>\<^verbatim>\<open>memcpy(&n, &pc[off], 4); n = le32toh(n)\<close>, for four bytes inside the script.\<close>

definition ReadLE32 :: "byte list \<Rightarrow> nat \<Rightarrow> uint32" where
  "ReadLE32 s off =
     ucast (s ! off) OR push_bit 8 (ucast (s ! (off + 1)))
       OR push_bit 16 (ucast (s ! (off + 2))) OR push_bit 24 (ucast (s ! (off + 3)))"

text \<open>
  The end of \<^verbatim>\<open>check\<close>, from the comment "Ensure we are at a deterministic point in
  the merkle leaves": \<open>pc\<close> is the offset of the root in the script.
\<close>

definition check_size_and_index ::
  "CAuxPow \<Rightarrow> int32 \<Rightarrow> byte list \<Rightarrow> byte list \<Rightarrow> nat \<Rightarrow> AuxError + unit" where
  "check_size_and_index aux nChainId script vchRootHash pc0 =
     (let pc = pc0 + length vchRootHash
      in if int (length script) - int pc < 8 then Inl ChainMerkleSizeMissing
         else
           let nSize = ReadLE32 script pc;
               merkleHeight = length (vChainMerkleBranch aux)
           in if nSize \<noteq> push_bit merkleHeight 1 then Inl MerkleBranchSizeMismatch
              else
                let nonce = ReadLE32 script (pc + 4)
                in case getExpectedIndex nonce nChainId merkleHeight of
                     None \<Rightarrow> Inl ShiftOutOfRange
                   | Some expected \<Rightarrow>
                       if nChainIndex aux \<noteq> expected then Inl WrongIndex else Inr ())"

text \<open>
  From the computation of the chain Merkle root on, the two files have the same text but
  for the index given to the Merkle verifier for the coinbase branch: \<open>idx\<close>.
\<close>

definition check_from_merkle ::
  "(byte list \<Rightarrow> uint256) \<Rightarrow> CAuxPow \<Rightarrow> int32 \<Rightarrow> uint256 \<Rightarrow> int32 \<Rightarrow> AuxError + unit" where
  "check_from_merkle H aux idx hashAuxBlock nChainId =
     (let nRootHash = CheckMerkleBranch H hashAuxBlock (vChainMerkleBranch aux) (nChainIndex aux);
          vchRootHash = rev (uint256_bytes nRootHash)
      in if CheckMerkleBranch H (tx_hash (tx aux)) (vMerkleBranch aux) idx
              \<noteq> hashMerkleRoot (parentBlock aux)
         then Inl MerkleRootIncorrect
         else case vin (tx aux) of
           [] \<Rightarrow> Inl VinOutOfRange
         | txin # _ \<Rightarrow>
           let script = scriptSig txin;
               pcHead = search script pchMergedHdr;
               pc = search script vchRootHash
           in if pc = length script then Inl MissingChainMerkleRoot
              else if pcHead \<noteq> length script then
                if length (drop (pcHead + 1) script)
                     \<noteq> search (drop (pcHead + 1) script) pchMergedHdr
                then Inl MultipleMergedMiningHeaders
                else if pcHead + length pchMergedHdr \<noteq> pc then Inl HeaderNotJustBeforeRoot
                else check_size_and_index aux nChainId script vchRootHash pc
              else
                if pc > 20 then Inl RootMustStartInFirst20Bytes
                else check_size_and_index aux nChainId script vchRootHash pc)"

text \<open>\<^verbatim>\<open>CAuxPow::check\<close> of block.cpp.\<close>

definition check_verdict ::
  "(byte list \<Rightarrow> uint256) \<Rightarrow> CAuxPow \<Rightarrow> uint256 \<Rightarrow> int32 \<Rightarrow> 'a Params_scheme
     \<Rightarrow> AuxError + unit" where
  "check_verdict H aux hashAuxBlock nChainId params =
     (if nIndex aux \<noteq> 0 then Inl NotAGenerate
      else if fStrictChainId params \<and> GetChainId (parentBlock aux) = nChainId
      then Inl ParentHasOurChainId
      else if length (vChainMerkleBranch aux) > 30 then Inl ChainBranchTooLong
      else check_from_merkle H aux (nIndex aux) hashAuxBlock nChainId)"

definition check ::
  "(byte list \<Rightarrow> uint256) \<Rightarrow> CAuxPow \<Rightarrow> uint256 \<Rightarrow> int32 \<Rightarrow> 'a Params_scheme \<Rightarrow> bool" where
  "check H aux hashAuxBlock nChainId params \<longleftrightarrow>
     check_verdict H aux hashAuxBlock nChainId params = Inr ()"

text \<open>\<^verbatim>\<open>CAuxPow::check\<close> of block__.cpp: no test of \<^verbatim>\<open>nIndex\<close>, and the literal 0 as index.\<close>

definition check_verdict_block2 ::
  "(byte list \<Rightarrow> uint256) \<Rightarrow> CAuxPow \<Rightarrow> uint256 \<Rightarrow> int32 \<Rightarrow> 'a Params_scheme
     \<Rightarrow> AuxError + unit" where
  "check_verdict_block2 H aux hashAuxBlock nChainId params =
     (if fStrictChainId params \<and> GetChainId (parentBlock aux) = nChainId
      then Inl ParentHasOurChainId
      else if length (vChainMerkleBranch aux) > 30 then Inl ChainBranchTooLong
      else check_from_merkle H aux 0 hashAuxBlock nChainId)"

definition check_block2 ::
  "(byte list \<Rightarrow> uint256) \<Rightarrow> CAuxPow \<Rightarrow> uint256 \<Rightarrow> int32 \<Rightarrow> 'a Params_scheme \<Rightarrow> bool" where
  "check_block2 H aux hashAuxBlock nChainId params \<longleftrightarrow>
     check_verdict_block2 H aux hashAuxBlock nChainId params = Inr ()"

section \<open>Chain parameters (chainparams.cpp)\<close>

text \<open>
  Of a \<^verbatim>\<open>CChainParams\<close> the network name and the consensus parameters are kept. The
  constructors assert that the hash of the genesis block they build is a given literal,
  so \<^verbatim>\<open>consensus.hashGenesisBlock\<close> of a constructed object is that literal.
\<close>

record CChainParams =
  strNetworkID :: string
  consensus :: Params

definition CMainParams :: CChainParams where
  "CMainParams = \<lparr>
     strNetworkID = ''main'',
     consensus = \<lparr>
       hashGenesisBlock = 0x1a91e3dace36e2be3bf030a65679fe821aa1d6ef92e7c9902eb318182c355691,
       nSubsidyHalvingInterval = 100000,
       BIP34Height = 1034383,
       BIP34Hash = 0x80d1364201e5df97e696c03bdd24dc885e8617b9de51e453c10a4f629b1e797a,
       BIP65Height = 3464751,
       BIP66Height = 1034383,
       CSVHeight = 0,
       WitnessHeight = 0,
       nCoinbaseMaturityBegin = 30,
       CoinbaseMaturity240Height = 145000,
       powLimit = drop_bit 20 (NOT 0),
       fPowAllowMinDifficultyBlocks = False,
       nPowTargetSpacing = 60,
       nPowTargetTimespanBegin = 4 * 60 * 60,
       PowTargetTimespan60Height = 145000,
       nMinimumChainWork = 0x0000000000000000000000000000000000000000000002f090e3e57191fd0703,
       defaultAssumeValid = 0x195a83b091fb3ee7ecb56f2e63d01709293f57f971ccf373d93890c8dc1033db,
       nAuxpowChainId = 0x0062,
       fStrictChainId = True,
       DigishieldDifficultyCalculationHeight = 145000,
       SimplifiedRewardsHeight = 145000,
       DisallowLegacyBlocksHeight = 371337 \<rparr> \<rparr>"

definition CTestNetParams :: CChainParams where
  "CTestNetParams = \<lparr>
     strNetworkID = ''test'',
     consensus = \<lparr>
       hashGenesisBlock = 0xbb0a78264637406b6360aad926284d544d7049f45189db5664f3c4d07350559e,
       nSubsidyHalvingInterval = 100000,
       BIP34Height = 708658,
       BIP34Hash = 0x21b8b97dcdb94caa67c7f8f6dbf22e61e0cfe0e46e1fff3528b22864659e9b38,
       BIP65Height = 1854705,
       BIP66Height = 708658,
       CSVHeight = 0,
       WitnessHeight = 0,
       nCoinbaseMaturityBegin = 30,
       CoinbaseMaturity240Height = 145000,
       powLimit = drop_bit 20 (NOT 0),
       fPowAllowMinDifficultyBlocks = True,
       nPowTargetSpacing = 60,
       nPowTargetTimespanBegin = 4 * 60 * 60,
       PowTargetTimespan60Height = 145000,
       nMinimumChainWork = 0x00000000000000000000000000000000000000000000000000001030d1382ade,
       defaultAssumeValid = 0x6943eaeaba98dc7d09f7e73398daccb4abcabb18b66c8c875e52b07638d93951,
       nAuxpowChainId = 0x0062,
       fStrictChainId = False,
       DigishieldDifficultyCalculationHeight = 145000,
       SimplifiedRewardsHeight = 145000,
       DisallowLegacyBlocksHeight = 158100 \<rparr> \<rparr>"

definition CRegTestParams :: CChainParams where
  "CRegTestParams = \<lparr>
     strNetworkID = ''regtest'',
     consensus = \<lparr>
       hashGenesisBlock = 0x3d2160a3b5dc4a9d62e7e66a295f70313ac808440ef7400d6c0772171ce973a5,
       nSubsidyHalvingInterval = 150,
       BIP34Height = 100000000,
       BIP34Hash = 0,
       BIP65Height = 1251,
       BIP66Height = 1251,
       CSVHeight = 0,
       WitnessHeight = 0,
       nCoinbaseMaturityBegin = 60,
       CoinbaseMaturity240Height = 100000,
       powLimit = drop_bit 1 (NOT 0),
       fPowAllowMinDifficultyBlocks = True,
       nPowTargetSpacing = 1,
       nPowTargetTimespanBegin = 1,
       PowTargetTimespan60Height = 100000,
       nMinimumChainWork = 0x00,
       defaultAssumeValid = 0x00,
       nAuxpowChainId = 0x0062,
       fStrictChainId = True,
       DigishieldDifficultyCalculationHeight = 10,
       SimplifiedRewardsHeight = 0,
       DisallowLegacyBlocksHeight = 20 \<rparr> \<rparr>"

text \<open>
  \<^verbatim>\<open>CreateChainParams\<close>: the names \<^verbatim>\<open>CBaseChainParams::MAIN\<close>, \<^verbatim>\<open>TESTNET\<close> and
  \<^verbatim>\<open>REGTEST\<close> are the network names the three constructors store in \<^verbatim>\<open>strNetworkID\<close>.
  \<open>None\<close> is the \<^verbatim>\<open>std::runtime_error\<close> thrown for any other name.
\<close>

definition CreateChainParams :: "string \<Rightarrow> CChainParams option" where
  "CreateChainParams chain =
     (if chain = ''main'' then Some CMainParams
      else if chain = ''test'' then Some CTestNetParams
      else if chain = ''regtest'' then Some CRegTestParams
      else None)"

section \<open>SHA-256 and the double hash (crypto/sha256, hash.h)\<close>

text \<open>
  Modelled from the spec: the hash functions are in crypto/sha256.cpp and hash.h, which
  are not part of the sources at hand. The specification names them: \<^verbatim>\<open>dsha256\<close> is two
  sequential rounds of SHA-256, and its 32 bytes, in the order SHA-256 gives them, are the
  bytes of the \<^verbatim>\<open>uint256\<close>. SHA-256 is the function of FIPS 180-4: the message is padded
  with the byte \<open>0x80\<close>, zeros and its length in bits as a 64-bit big-endian number to a
  multiple of 64 bytes, and each block of 64 bytes is compressed into the state of eight
  32-bit words.
\<close>

definition sha256_K :: "32 word list" where
  "sha256_K = [
    0x428a2f98, 0x71374491, 0xb5c0fbcf, 0xe9b5dba5, 0x3956c25b, 0x59f111f1, 0x923f82a4, 0xab1c5ed5,
    0xd807aa98, 0x12835b01, 0x243185be, 0x550c7dc3, 0x72be5d74, 0x80deb1fe, 0x9bdc06a7, 0xc19bf174,
    0xe49b69c1, 0xefbe4786, 0x0fc19dc6, 0x240ca1cc, 0x2de92c6f, 0x4a7484aa, 0x5cb0a9dc, 0x76f988da,
    0x983e5152, 0xa831c66d, 0xb00327c8, 0xbf597fc7, 0xc6e00bf3, 0xd5a79147, 0x06ca6351, 0x14292967,
    0x27b70a85, 0x2e1b2138, 0x4d2c6dfc, 0x53380d13, 0x650a7354, 0x766a0abb, 0x81c2c92e, 0x92722c85,
    0xa2bfe8a1, 0xa81a664b, 0xc24b8b70, 0xc76c51a3, 0xd192e819, 0xd6990624, 0xf40e3585, 0x106aa070,
    0x19a4c116, 0x1e376c08, 0x2748774c, 0x34b0bcb5, 0x391c0cb3, 0x4ed8aa4a, 0x5b9cca4f, 0x682e6ff3,
    0x748f82ee, 0x78a5636f, 0x84c87814, 0x8cc70208, 0x90befffa, 0xa4506ceb, 0xbef9a3f7, 0xc67178f2]"

definition sha256_init ::
  "32 word \<times> 32 word \<times> 32 word \<times> 32 word \<times> 32 word \<times> 32 word \<times> 32 word \<times> 32 word" where
  "sha256_init = (0x6a09e667, 0xbb67ae85, 0x3c6ef372, 0xa54ff53a,
                  0x510e527f, 0x9b05688c, 0x1f83d9ab, 0x5be0cd19)"

definition rotr :: "nat \<Rightarrow> 32 word \<Rightarrow> 32 word" where
  "rotr n x = drop_bit n x OR push_bit (32 - n) x"

definition Ch :: "32 word \<Rightarrow> 32 word \<Rightarrow> 32 word \<Rightarrow> 32 word" where
  "Ch x y z = (x AND y) XOR (NOT x AND z)"

definition Maj :: "32 word \<Rightarrow> 32 word \<Rightarrow> 32 word \<Rightarrow> 32 word" where
  "Maj x y z = (x AND y) XOR (x AND z) XOR (y AND z)"

definition Sigma0 :: "32 word \<Rightarrow> 32 word" where
  "Sigma0 x = rotr 2 x XOR rotr 13 x XOR rotr 22 x"

definition Sigma1 :: "32 word \<Rightarrow> 32 word" where
  "Sigma1 x = rotr 6 x XOR rotr 11 x XOR rotr 25 x"

definition sigma0 :: "32 word \<Rightarrow> 32 word" where
  "sigma0 x = rotr 7 x XOR rotr 18 x XOR drop_bit 3 x"

definition sigma1 :: "32 word \<Rightarrow> 32 word" where
  "sigma1 x = rotr 17 x XOR rotr 19 x XOR drop_bit 10 x"

text \<open>
  The 64 rounds on one block. The message schedule is kept as a window of the next 16
  words: the word of the round is its head, and the word 16 places further is appended.
\<close>

type_synonym sha256_state =
  "32 word \<times> 32 word \<times> 32 word \<times> 32 word \<times> 32 word \<times> 32 word \<times> 32 word \<times> 32 word"

fun sha256_rounds :: "32 word list \<Rightarrow> 32 word list \<Rightarrow> sha256_state \<Rightarrow> sha256_state" where
  "sha256_rounds [] w s = s"
| "sha256_rounds (k # ks) w (a, b, c, d, e, f, g, h) =
     (let w0 = hd w;
          T1 = h + Sigma1 e + Ch e f g + k + w0;
          T2 = Sigma0 a + Maj a b c;
          w16 = sigma1 (w ! 14) + w ! 9 + sigma0 (w ! 1) + w0
      in sha256_rounds ks (tl w @ [w16]) (T1 + T2, a, b, c, d + T1, e, f, g))"

fun add_state :: "sha256_state \<Rightarrow> sha256_state \<Rightarrow> sha256_state" where
  "add_state (a, b, c, d, e, f, g, h) (a', b', c', d', e', f', g', h') =
     (a + a', b + b', c + c', d + d', e + e', f + f', g + g', h + h')"

definition be32 :: "byte \<Rightarrow> byte \<Rightarrow> byte \<Rightarrow> byte \<Rightarrow> 32 word" where
  "be32 b0 b1 b2 b3 =
      push_bit 24 (ucast b0) OR push_bit 16 (ucast b1) OR push_bit 8 (ucast b2) OR ucast b3"

fun be32_words :: "byte list \<Rightarrow> 32 word list" where
  "be32_words (b0 # b1 # b2 # b3 # bs) = be32 b0 b1 b2 b3 # be32_words bs"
| "be32_words bs = []"

definition sha256_compress :: "sha256_state \<Rightarrow> byte list \<Rightarrow> sha256_state" where
  "sha256_compress s block = add_state s (sha256_rounds sha256_K (be32_words block) s)"

function chunks64 :: "byte list \<Rightarrow> byte list list" where
  "chunks64 bs = (if bs = [] then [] else take 64 bs # chunks64 (drop 64 bs))"
  by pat_completeness auto
termination
  by (relation "measure length") simp_all

definition be64_bytes :: "64 word \<Rightarrow> byte list" where
  "be64_bytes w = [ucast (drop_bit 56 w), ucast (drop_bit 48 w), ucast (drop_bit 40 w),
                   ucast (drop_bit 32 w), ucast (drop_bit 24 w), ucast (drop_bit 16 w),
                   ucast (drop_bit 8 w), ucast w]"

definition sha256_pad :: "byte list \<Rightarrow> byte list" where
  "sha256_pad bs = bs @ [0x80] @ replicate ((119 - length bs mod 64) mod 64) 0
                     @ be64_bytes (push_bit 3 (of_nat (length bs)))"

definition be32_bytes :: "32 word \<Rightarrow> byte list" where
  "be32_bytes w = [ucast (drop_bit 24 w), ucast (drop_bit 16 w), ucast (drop_bit 8 w), ucast w]"

fun state_bytes :: "sha256_state \<Rightarrow> byte list" where
  "state_bytes (a, b, c, d, e, f, g, h) = concat (map be32_bytes [a, b, c, d, e, f, g, h])"

definition sha256 :: "byte list \<Rightarrow> byte list" where
  "sha256 bs = state_bytes (foldl sha256_compress sha256_init (chunks64 (sha256_pad bs)))"

definition uint256_of_bytes :: "byte list \<Rightarrow> uint256" where
  "uint256_of_bytes bs = foldr (\<lambda>b acc. ucast b OR push_bit 8 acc) bs 0"

definition dsha256 :: "byte list \<Rightarrow> uint256" where
  "dsha256 bs = uint256_of_bytes (sha256 (sha256 bs))"


section \<open>Scripts (script/script.h, utilstrencodings.h)\<close>

text \<open>
  Modelled from the spec: \<^verbatim>\<open>CScript\<close> and its \<^verbatim>\<open>operator<<\<close> are declared in
  script/script.h, and \<^verbatim>\<open>ParseHex\<close> in utilstrencodings.h, which are not part of the
  sources at hand. The specification gives the results for the genesis block: the
  timestamp literal in the coinbase script and the output script \<^verbatim>\<open>OP_PUSH(65 bytes)
  OP_CHECKSIG\<close>. A script is its bytes. Pushing a byte vector writes its length (a single
  byte below \<^verbatim>\<open>OP_PUSHDATA1\<close>, else a \<^verbatim>\<open>PUSHDATA\<close> opcode and a little-endian length)
  and the bytes; pushing an integer writes the opcode of a small number or the push of
  its \<^verbatim>\<open>CScriptNum\<close> bytes (little-endian magnitude with a sign bit); pushing a
  \<^verbatim>\<open>CScriptNum\<close> pushes its bytes; pushing an opcode writes one byte. \<open>ParseHex\<close> reads
  pairs of hexadecimal digits up to the first character that is not one.
\<close>

definition OP_0 :: byte where "OP_0 = 0x00"
definition OP_PUSHDATA1 :: byte where "OP_PUSHDATA1 = 0x4c"
definition OP_PUSHDATA2 :: byte where "OP_PUSHDATA2 = 0x4d"
definition OP_PUSHDATA4 :: byte where "OP_PUSHDATA4 = 0x4e"
definition OP_1 :: byte where "OP_1 = 0x51"
definition OP_CHECKSIG :: byte where "OP_CHECKSIG = 0xac"

definition push_data :: "byte list \<Rightarrow> byte list \<Rightarrow> byte list" where
  "push_data s b =
     (if length b < 0x4c then s @ [of_nat (length b)] @ b
      else if length b \<le> 0xff then s @ [OP_PUSHDATA1, of_nat (length b)] @ b
      else if length b \<le> 0xffff then s @ [OP_PUSHDATA2] @ le_bytes 2 (length b) @ b
      else s @ [OP_PUSHDATA4] @ le_bytes 4 (length b) @ b)"

definition push_opcode :: "byte list \<Rightarrow> byte \<Rightarrow> byte list" where
  "push_opcode s opcode = s @ [opcode]"

function abs_bytes :: "64 word \<Rightarrow> byte list" where
  "abs_bytes absvalue =
     (if absvalue = 0 then [] else ucast (absvalue AND 0xff) # abs_bytes (drop_bit 8 absvalue))"
  by pat_completeness auto
termination
proof (relation "measure unat")
  show "wf (measure unat)" by simp
next
  fix absvalue :: "64 word"
  assume "absvalue \<noteq> 0"
  then have "0 < unat absvalue"
    by (simp add: unat_gt_0)
  then have "unat absvalue div 2 ^ 8 < unat absvalue"
    by simp
  then show "(drop_bit 8 absvalue, absvalue) \<in> measure unat"
    by (simp add: drop_bit_eq_div unat_div_distrib)
qed

definition CScriptNum_serialize :: "int64 \<Rightarrow> byte list" where
  "CScriptNum_serialize v =
     (if v = 0 then []
      else
        let neg = v <s 0;
            absvalue = (if neg then - v else v);
            result = abs_bytes absvalue
        in if last result AND 0x80 \<noteq> 0 then result @ [if neg then 0x80 else 0]
           else if neg then butlast result @ [last result OR 0x80]
           else result)"

definition push_int64 :: "byte list \<Rightarrow> int64 \<Rightarrow> byte list" where
  "push_int64 s n =
     (if n = - 1 \<or> (1 \<le>s n \<and> n \<le>s 16) then s @ [ucast n + (OP_1 - 1)]
      else if n = 0 then s @ [OP_0]
      else push_data s (CScriptNum_serialize n))"

definition push_CScriptNum :: "byte list \<Rightarrow> int64 \<Rightarrow> byte list" where
  "push_CScriptNum s b = push_data s (CScriptNum_serialize b)"

definition hex_digit :: "char \<Rightarrow> nat option" where
  "hex_digit c =
     (let n = (of_char c :: nat)
      in if 48 \<le> n \<and> n \<le> 57 then Some (n - 48)
         else if 97 \<le> n \<and> n \<le> 102 then Some (n - 87)
         else if 65 \<le> n \<and> n \<le> 70 then Some (n - 55)
         else None)"

fun ParseHex :: "string \<Rightarrow> byte list" where
  "ParseHex (c1 # c2 # cs) =
     (case hex_digit c1 of
        None \<Rightarrow> []
      | Some a \<Rightarrow>
         (case hex_digit c2 of
            None \<Rightarrow> []
          | Some b \<Rightarrow> of_nat (16 * a + b) # ParseHex cs))"
| "ParseHex cs = []"

section \<open>Serialization and hash of a transaction (primitives/transaction.h)\<close>

text \<open>
  Modelled from the spec: the serialization of a transaction is in
  primitives/transaction.h, which is not part of the sources at hand. The identifier of a
  transaction is the double SHA-256 of its serialization without witness data: version,
  inputs (previous output, script, sequence number), outputs (value, script) and lock
  time, integers little-endian and vectors with a CompactSize length. The default values
  are those of the constructors: a null previous output is the zero hash with index
  \<open>-1\<close>, the sequence number is \<open>0xffffffff\<close>, a null output has the value \<open>-1\<close>, and
  a new mutable transaction has version 2 and lock time 0. \<open>resize\<close> is
  \<^verbatim>\<open>std::vector::resize\<close>.
\<close>

definition ser_uint64 :: "64 word \<Rightarrow> byte list" where
  "ser_uint64 w = [ucast w, ucast (drop_bit 8 w), ucast (drop_bit 16 w), ucast (drop_bit 24 w),
                   ucast (drop_bit 32 w), ucast (drop_bit 40 w), ucast (drop_bit 48 w),
                   ucast (drop_bit 56 w)]"

definition Serialize_CTxIn :: "CTxIn \<Rightarrow> byte list" where
  "Serialize_CTxIn i =
     uint256_bytes (prevout_hash (prevout i)) @ ser_uint32 (prevout_n (prevout i))
     @ WriteCompactSize (length (scriptSig i)) @ scriptSig i
     @ ser_uint32 (nSequence i)"

definition Serialize_CTxOut :: "CTxOut \<Rightarrow> byte list" where
  "Serialize_CTxOut out =
     ser_uint64 (nValue out) @ WriteCompactSize (length (scriptPubKey out)) @ scriptPubKey out"

definition Serialize_CTransaction :: "'a CMutableTransaction_scheme \<Rightarrow> byte list" where
  "Serialize_CTransaction t =
     ser_uint32 (tx_nVersion t)
     @ WriteCompactSize (length (vin t)) @ concat (map Serialize_CTxIn (vin t))
     @ WriteCompactSize (length (vout t)) @ concat (map Serialize_CTxOut (vout t))
     @ ser_uint32 (nLockTime t)"

definition CTxIn_default :: CTxIn where
  "CTxIn_default = \<lparr> prevout = \<lparr> prevout_hash = 0, prevout_n = - 1 \<rparr>,
                      scriptSig = [], nSequence = 0xffffffff \<rparr>"

definition CTxOut_default :: CTxOut where
  "CTxOut_default = \<lparr> nValue = - 1, scriptPubKey = [] \<rparr>"

definition CMutableTransaction_default :: CMutableTransaction where
  "CMutableTransaction_default = \<lparr> vin = [], vout = [], tx_nVersion = 2, nLockTime = 0 \<rparr>"

definition resize :: "nat \<Rightarrow> 'a \<Rightarrow> 'a list \<Rightarrow> 'a list" where
  "resize n d v = take n v @ replicate (n - length v) d"

definition MakeTransactionRef ::
  "(byte list \<Rightarrow> uint256) \<Rightarrow> CMutableTransaction \<Rightarrow> CTransaction" where
  "MakeTransactionRef H t =
     \<lparr> vin = vin t, vout = vout t, tx_nVersion = tx_nVersion t, nLockTime = nLockTime t,
       tx_hash = H (Serialize_CTransaction t) \<rparr>"

section \<open>Blocks and the Merkle root (primitives/block.h, consensus/merkle.h)\<close>

text \<open>A \<^verbatim>\<open>CBlock\<close> is a \<^verbatim>\<open>CBlockHeader\<close> with the vector of its transactions.\<close>

record CBlock =
  blk_header :: CBlockHeader
  vtx :: "CTransaction list"

text \<open>
  Modelled from the spec: \<^verbatim>\<open>BlockMerkleRoot\<close> is declared in consensus/merkle.h, which is
  not part of the sources at hand. It is the root of the Merkle tree over the hashes of
  the transactions: each level hashes the concatenation of two neighbours, the last node
  of a level of odd length is paired with itself, a single hash is its own root and the
  root of no hashes is zero.
\<close>

fun merkle_level :: "(byte list \<Rightarrow> uint256) \<Rightarrow> uint256 list \<Rightarrow> uint256 list" where
  "merkle_level H (a # b # rest) = H (uint256_bytes a @ uint256_bytes b) # merkle_level H rest"
| "merkle_level H [a] = [H (uint256_bytes a @ uint256_bytes a)]"
| "merkle_level H [] = []"

function ComputeMerkleRoot :: "(byte list \<Rightarrow> uint256) \<Rightarrow> uint256 list \<Rightarrow> uint256" where
  "ComputeMerkleRoot H [] = 0"
| "ComputeMerkleRoot H [h] = h"
| "ComputeMerkleRoot H (a # b # rest) = ComputeMerkleRoot H (merkle_level H (a # b # rest))"
  by pat_completeness auto
termination
proof (relation "measure (\<lambda>(H, xs). length xs)")
  show "wf (measure (\<lambda>(H, xs). length xs))"
    by simp
next
  fix H :: "byte list \<Rightarrow> uint256" and a b :: uint256 and rest :: "uint256 list"
  have "length (merkle_level H xs) \<le> length xs" for xs
    by (induction H xs rule: merkle_level.induct) simp_all
  then have "length (merkle_level H rest) \<le> length rest" .
  then show "((H, merkle_level H (a # b # rest)), (H, a # b # rest))
               \<in> measure (\<lambda>(H, xs). length xs)"
    by simp
qed

definition BlockMerkleRoot :: "(byte list \<Rightarrow> uint256) \<Rightarrow> CBlock \<Rightarrow> uint256" where
  "BlockMerkleRoot H block = ComputeMerkleRoot H (map tx_hash (vtx block))"

section \<open>The genesis block (chainparams.cpp, amount.h)\<close>

text \<open>
  \<^verbatim>\<open>CreateGenesisBlock\<close> with the timestamp and the output script as arguments builds the
  coinbase transaction \<^verbatim>\<open>txNew\<close> (\<open>CreateGenesisBlock_txNew\<close>) and then the block
  around it (\<open>CreateGenesisBlock_script\<close>); the overload without them supplies
  "Nintondo" and the output script of the fixed public key.
\<close>

definition COIN :: int64 where
  "COIN = 100000000"

definition CreateGenesisBlock_txNew :: "string \<Rightarrow> byte list \<Rightarrow> int64 \<Rightarrow> CMutableTransaction" where
  "CreateGenesisBlock_txNew pszTimestamp genesisOutputScript genesisReward =
     (let txNew = CMutableTransaction_default;
          txNew = txNew \<lparr> tx_nVersion := 1 \<rparr>;
          txNew = txNew \<lparr> vin := resize 1 CTxIn_default (vin txNew) \<rparr>;
          txNew = txNew \<lparr> vout := resize 1 CTxOut_default (vout txNew) \<rparr>;
          txNew = txNew \<lparr> vin := (vin txNew) [0 := (vin txNew ! 0) \<lparr> scriptSig :=
                    push_data (push_CScriptNum (push_int64 [] 486604799) 4)
                      (map of_char pszTimestamp) \<rparr>] \<rparr>;
          txNew = txNew \<lparr> vout := (vout txNew) [0 := (vout txNew ! 0) \<lparr> nValue := genesisReward \<rparr>] \<rparr>;
          txNew = txNew \<lparr> vout := (vout txNew) [0 := (vout txNew ! 0)
                    \<lparr> scriptPubKey := genesisOutputScript \<rparr>] \<rparr>
      in txNew)"

definition CreateGenesisBlock_script ::
  "(byte list \<Rightarrow> uint256) \<Rightarrow> string \<Rightarrow> byte list \<Rightarrow> uint32 \<Rightarrow> uint32 \<Rightarrow> uint32 \<Rightarrow> int32 \<Rightarrow> int64
     \<Rightarrow> CBlock" where
  "CreateGenesisBlock_script H pszTimestamp genesisOutputScript time nonce bits version genesisReward =
     (let txNew = CreateGenesisBlock_txNew pszTimestamp genesisOutputScript genesisReward;
          genesis = \<lparr> blk_header = CBlockHeader 0 0 0 0 0 0 None, vtx = [] \<rparr>;
          genesis = genesis \<lparr> blk_header := CBlockHeader version 0 0 time bits nonce None \<rparr>;
          genesis = genesis \<lparr> vtx := vtx genesis @ [MakeTransactionRef H txNew] \<rparr>
      in genesis \<lparr> blk_header :=
           CBlockHeader version 0 (BlockMerkleRoot H genesis) time bits nonce None \<rparr>)"

definition CreateGenesisBlock ::
  "(byte list \<Rightarrow> uint256) \<Rightarrow> uint32 \<Rightarrow> uint32 \<Rightarrow> uint32 \<Rightarrow> int32 \<Rightarrow> int64 \<Rightarrow> CBlock" where
  "CreateGenesisBlock H time nonce bits version genesisReward =
     (let pszTimestamp = ''Nintondo'';
          genesisOutputScript = push_opcode (push_data []
            (ParseHex ''040184710fa689ad5023690c80f3a49c8f13f8d45b8c857fbcbc8bc4a8e4d3eb4b10f4d4604fa08dce601aaf0f470216fe1b51850b4acf21b179c45070ac7b03a9''))
            OP_CHECKSIG
      in CreateGenesisBlock_script H pszTimestamp genesisOutputScript time nonce bits version
           genesisReward)"

section \<open>The expected index as the specification writes it\<close>

text \<open>
  The specification gives the expected index as a formula over the integers, reduced
  modulo \<open>2 ^ 32\<close> and then modulo \<open>2 ^ h\<close>. It is stated here on its own, to be
  compared with \<open>getExpectedIndex\<close>.
\<close>

definition expected_index_spec :: "int \<Rightarrow> int \<Rightarrow> nat \<Rightarrow> int" where
  "expected_index_spec nonce chain_id h =
     ((((nonce * 1103515245 + 12345) + chain_id) * 1103515245 + 12345) mod 2 ^ 32) mod 2 ^ h"

section \<open>Test vectors\<close>

text \<open>
  An AuxPoW whose parent block holds the coinbase alone, as \<^verbatim>\<open>buildSimpleAuxPow\<close> of
  block__.cpp builds it: both branches are empty and the Merkle root of the parent is the
  hash of the coinbase. The coinbase script, the two indices, the chain branch and the
  version of the parent are left open.
\<close>

definition simple_auxpow ::
  "byte list \<Rightarrow> int32 \<Rightarrow> uint256 list \<Rightarrow> int32 \<Rightarrow> int32 \<Rightarrow> CAuxPow" where
  "simple_auxpow script idx chain_branch chain_idx parent_version =
     CAuxPow
       \<lparr> vin = [\<lparr> prevout = \<lparr> prevout_hash = 0, prevout_n = 0xffffffff \<rparr>,
                 scriptSig = script, nSequence = 0xffffffff \<rparr>],
         vout = [], tx_nVersion = 1, nLockTime = 0, tx_hash = 0xc0ffee \<rparr>
       0 [] idx chain_branch chain_idx
       (CBlockHeader parent_version 0 0xc0ffee 0 0 0 None)"

text \<open>
  Coinbase scripts: 16 bytes, the merged-mining header, the reversed root, the size and
  the nonce; and, without the header, \<open>n\<close> bytes, the reversed root and a rest.
\<close>

definition script_with_header :: "uint256 \<Rightarrow> uint32 \<Rightarrow> uint32 \<Rightarrow> byte list" where
  "script_with_header root sz nonce =
     replicate 16 0 @ pchMergedHdr @ rev (uint256_bytes root) @ ser_uint32 sz @ ser_uint32 nonce"

definition script_without_header :: "nat \<Rightarrow> uint256 \<Rightarrow> byte list \<Rightarrow> byte list" where
  "script_without_header n root rest = replicate n 0 @ rev (uint256_bytes root) @ rest"

text \<open>A stand-in for the hash function where its values do not matter.\<close>

definition toy_hash :: "byte list \<Rightarrow> uint256" where
  "toy_hash bs = of_nat (length bs) + ucast (sum_list bs)"

section \<open>Auxiliary facts\<close>

lemma length_uint256_bytes: "length (uint256_bytes w) = 32"
  by (simp add: uint256_bytes_def)

lemma length_ser_uint32: "length (ser_uint32 w) = 4"
  by (simp add: ser_uint32_def)

text \<open>
  \<open>search\<close> is the first occurrence: it stays within the range, the needle is at the
  offset it returns unless that is the end, and the needle is at no smaller offset.
\<close>

lemma search_le_length: "search hay needle \<le> length hay"
  by (induction hay) simp_all

lemma search_occurrence:
  "search hay needle < length hay \<Longrightarrow>
     take (length needle) (drop (search hay needle) hay) = needle"
  by (induction hay) (simp_all split: if_splits)

lemma search_first:
  "i < search hay needle \<Longrightarrow> take (length needle) (drop i hay) \<noteq> needle"
proof (induction hay arbitrary: i)
  case Nil
  then show ?case by simp
next
  case (Cons x xs)
  then show ?case
    by (cases i) (auto split: if_splits)
qed

lemma check_size_and_index_not_position:
  "check_size_and_index aux nChainId script root pc \<noteq> Inl RootMustStartInFirst20Bytes"
  by (simp add: check_size_and_index_def Let_def split: option.split)

lemma rand_as_int:
  fixes nonce cid :: "32 word"
  shows "uint ((nonce * 1103515245 + 12345 + cid) * 1103515245 + 12345)
     = (((uint nonce * 1103515245 + 12345) + sint cid) * 1103515245 + 12345) mod 2 ^ 32"
proof -
  have "(nonce * 1103515245 + 12345 + cid) * 1103515245 + 12345
      = word_of_int (((uint nonce * 1103515245 + 12345) + sint cid) * 1103515245 + 12345)"
    by simp
  then show ?thesis
    by (simp only: uint_word_of_int_eq take_bit_eq_mod) simp
qed

lemma sint_mod_pow2:
  fixes r :: "32 word"
  assumes "h \<le> 30"
  shows "sint (r mod push_bit h 1) = uint r mod 2 ^ h"
proof -
  have le: "(2::int) ^ h \<le> 2 ^ 30" using assms by (intro power_increasing) simp_all
  have p: "uint (push_bit h 1 :: 32 word) = 2 ^ h"
  proof -
    have "(push_bit h 1 :: 32 word) = word_of_int (2 ^ h)"
      by (simp add: push_bit_eq_mult)
    then have "uint (push_bit h 1 :: 32 word) = take_bit 32 ((2::int) ^ h)"
      by (simp only: uint_word_of_int_eq) simp
    with assms show ?thesis
      by simp
  qed
  have u: "uint (r mod push_bit h 1) = uint r mod 2 ^ h"
    by (simp only: uint_mod_distrib p)
  have "uint r mod 2 ^ h < 2 ^ h" by simp
  also note le
  also have "(2::int) ^ 30 < 2 ^ 31" by simp
  finally have hi: "uint r mod 2 ^ h < 2 ^ 31" .
  have lo: "- (2 ^ 31) \<le> uint r mod 2 ^ h"
    by (rule order_trans [of _ 0]) simp_all
  have "signed_take_bit 31 (uint r mod 2 ^ h) = uint r mod 2 ^ h"
    using lo hi by (rule signed_take_bit_int_eq_self)
  with u show ?thesis
    by (simp add: sint_uint)
qed

lemma getExpectedIndex_spec:
  assumes "h \<le> 30"
  shows "\<exists>r. getExpectedIndex nonce cid h = Some r
            \<and> sint r = expected_index_spec (uint nonce) (sint cid) h"
proof -
  define r where "r = (nonce * 1103515245 + 12345 + cid) * 1103515245 + 12345"
  have "getExpectedIndex nonce cid h = Some (r mod push_bit h 1)"
    using assms by (simp only: getExpectedIndex_def Let_def r_def if_True)
  moreover have "sint (r mod push_bit h 1) = expected_index_spec (uint nonce) (sint cid) h"
    by (simp only: sint_mod_pow2 [OF assms] r_def rand_as_int expected_index_spec_def)
  ultimately show ?thesis by blast
qed

lemma check_reaches_index_test:
  assumes idx: "nIndex aux = 0"
    and chain: "\<not> (fStrictChainId params \<and> GetChainId (parentBlock aux) = nChainId)"
    and len: "length (vChainMerkleBranch aux) \<le> 30"
    and merkle: "CheckMerkleBranch H (tx_hash (tx aux)) (vMerkleBranch aux) 0
                   = hashMerkleRoot (parentBlock aux)"
    and vin: "vin (tx aux) = txin # ins"
    and root: "vchRootHash = rev (uint256_bytes
                 (CheckMerkleBranch H hashAuxBlock (vChainMerkleBranch aux) (nChainIndex aux)))"
    and pc: "pc = search (scriptSig txin) vchRootHash"
    and found: "pc \<noteq> length (scriptSig txin)"
    and place: "if search (scriptSig txin) pchMergedHdr \<noteq> length (scriptSig txin)
                then search (drop (search (scriptSig txin) pchMergedHdr + 1) (scriptSig txin)) pchMergedHdr
                       = length (drop (search (scriptSig txin) pchMergedHdr + 1) (scriptSig txin))
                     \<and> search (scriptSig txin) pchMergedHdr + 4 = pc
                else pc \<le> 20"
  shows "check_verdict H aux hashAuxBlock nChainId params
           = check_size_and_index aux nChainId (scriptSig txin) vchRootHash pc"
proof -
  have "check_verdict H aux hashAuxBlock nChainId params
          = check_from_merkle H aux 0 hashAuxBlock nChainId"
    using idx chain len by (auto simp: check_verdict_def)
  also have "\<dots> = check_size_and_index aux nChainId (scriptSig txin) vchRootHash pc"
    using merkle vin found place
    by (simp add: check_from_merkle_def Let_def root [symmetric] pc [symmetric] pchMergedHdr_def
        split: if_splits)
  finally show ?thesis .
qed

lemma index_test_verdict:
  assumes idx: "nIndex aux = 0"
    and chain: "\<not> (fStrictChainId params \<and> GetChainId (parentBlock aux) = nChainId)"
    and len: "length (vChainMerkleBranch aux) \<le> 30"
    and merkle: "CheckMerkleBranch H (tx_hash (tx aux)) (vMerkleBranch aux) 0
                   = hashMerkleRoot (parentBlock aux)"
    and vin: "vin (tx aux) = txin # ins"
    and root: "vchRootHash = rev (uint256_bytes
                 (CheckMerkleBranch H hashAuxBlock (vChainMerkleBranch aux) (nChainIndex aux)))"
    and pc: "pc = search (scriptSig txin) vchRootHash"
    and found: "pc \<noteq> length (scriptSig txin)"
    and place: "if search (scriptSig txin) pchMergedHdr \<noteq> length (scriptSig txin)
                then search (drop (search (scriptSig txin) pchMergedHdr + 1) (scriptSig txin)) pchMergedHdr
                       = length (drop (search (scriptSig txin) pchMergedHdr + 1) (scriptSig txin))
                     \<and> search (scriptSig txin) pchMergedHdr + 4 = pc
                else pc \<le> 20"
    and room: "pc + 32 + 8 \<le> length (scriptSig txin)"
    and size: "ReadLE32 (scriptSig txin) (pc + 32) = push_bit (length (vChainMerkleBranch aux)) 1"
  shows "check_verdict H aux hashAuxBlock nChainId params
           = (if sint (nChainIndex aux)
                   \<noteq> expected_index_spec (uint (ReadLE32 (scriptSig txin) (pc + 36)))
                       (sint nChainId) (length (vChainMerkleBranch aux))
              then Inl WrongIndex else Inr ())"
proof -
  let ?h = "length (vChainMerkleBranch aux)"
  let ?nonce = "ReadLE32 (scriptSig txin) (pc + 36)"
  have root_len: "length vchRootHash = 32"
    by (simp add: root length_uint256_bytes)
  have reach: "check_verdict H aux hashAuxBlock nChainId params
                 = check_size_and_index aux nChainId (scriptSig txin) vchRootHash pc"
    by (rule check_reaches_index_test [OF idx chain len merkle vin root pc found place])
  obtain r where r: "getExpectedIndex ?nonce nChainId ?h = Some r"
    and rs: "sint r = expected_index_spec (uint ?nonce) (sint nChainId) ?h"
    using getExpectedIndex_spec [OF len] by blast
  have size_ok: "\<not> int (length (scriptSig txin)) - int (pc + 32) < 8"
    using room by linarith
  have tail: "check_size_and_index aux nChainId (scriptSig txin) vchRootHash pc
                = (if nChainIndex aux \<noteq> r then Inl WrongIndex else Inr ())"
    using size_ok r size
    by (simp add: check_size_and_index_def Let_def root_len add.assoc)
  have eq: "nChainIndex aux = r \<longleftrightarrow> sint (nChainIndex aux) = sint r"
    by (auto intro: signed_word_eqI)
  show ?thesis
    by (simp add: reach tail eq rs)
qed

lemma position_check_without_header:
  assumes idx: "nIndex aux = 0"
    and chain: "\<not> (fStrictChainId params \<and> GetChainId (parentBlock aux) = nChainId)"
    and len: "length (vChainMerkleBranch aux) \<le> 30"
    and merkle: "CheckMerkleBranch H (tx_hash (tx aux)) (vMerkleBranch aux) 0
                   = hashMerkleRoot (parentBlock aux)"
    and vin: "vin (tx aux) = txin # ins"
    and root: "vchRootHash = rev (uint256_bytes
                 (CheckMerkleBranch H hashAuxBlock (vChainMerkleBranch aux) (nChainIndex aux)))"
    and script: "scriptSig txin = preamble @ vchRootHash @ rest"
    and no_header: "search (scriptSig txin) pchMergedHdr = length (scriptSig txin)"
    and first: "search (scriptSig txin) vchRootHash = length preamble"
  shows "check_verdict H aux hashAuxBlock nChainId params
           = (if length preamble > 20 then Inl RootMustStartInFirst20Bytes
              else check_size_and_index aux nChainId (scriptSig txin) vchRootHash (length preamble))"
proof -
  have "length vchRootHash = 32"
    by (simp add: root length_uint256_bytes)
  then have found: "length preamble \<noteq> length (scriptSig txin)"
    by (simp add: script)
  have "check_verdict H aux hashAuxBlock nChainId params
          = check_from_merkle H aux 0 hashAuxBlock nChainId"
    using idx chain len by (auto simp: check_verdict_def)
  also have "\<dots> = (if length preamble > 20 then Inl RootMustStartInFirst20Bytes
              else check_size_and_index aux nChainId (scriptSig txin) vchRootHash (length preamble))"
    using merkle vin found no_header first
    by (simp add: check_from_merkle_def Let_def root [symmetric])
  finally show ?thesis .
qed

lemma CreateChainParams_cases:
  assumes "CreateChainParams chain = Some cp"
  shows "(chain = ''main'' \<and> cp = CMainParams) \<or> (chain = ''test'' \<and> cp = CTestNetParams)
         \<or> (chain = ''regtest'' \<and> cp = CRegTestParams)"
proof (cases "chain = ''main''")
  case True
  with assms show ?thesis by (simp add: CreateChainParams_def)
next
  case not_main: False
  show ?thesis
  proof (cases "chain = ''test''")
    case True
    with assms show ?thesis by (simp add: CreateChainParams_def)
  next
    case not_test: False
    show ?thesis
    proof (cases "chain = ''regtest''")
      case True
      with assms show ?thesis by (simp add: CreateChainParams_def)
    next
      case False
      with assms not_main not_test show ?thesis by (simp add: CreateChainParams_def)
    qed
  qed
qed

lemma timespan_fields:
  "nPowTargetTimespanBegin (consensus CMainParams) = 14400"
  "PowTargetTimespan60Height (consensus CMainParams) = 145000"
  "nPowTargetTimespanBegin (consensus CTestNetParams) = 14400"
  "PowTargetTimespan60Height (consensus CTestNetParams) = 145000"
  "nPowTargetTimespanBegin (consensus CRegTestParams) = 1"
  "PowTargetTimespan60Height (consensus CRegTestParams) = 100000"
  by (simp_all only: CMainParams_def CTestNetParams_def CRegTestParams_def
      CChainParams.simps Params.simps)

lemma network_names_differ:
  "''main'' \<noteq> ''regtest''" "''test'' \<noteq> ''regtest''" "''main'' \<noteq> ''test''"
  by simp_all

section \<open>The coinbase index\<close>

text \<open>
  C1. Whenever the coinbase Merkle index \<^verbatim>\<open>nIndex\<close> of an AuxPoW is not zero,
  \<^verbatim>\<open>CAuxPow::check\<close> of block.cpp fails with the message "AuxPow is not a generate"
  (the error \<open>NotAGenerate\<close>), whatever the other fields of the AuxPoW, the hash of the
  aux block, the chain id and the parameters are.
\<close>

theorem check_rejects_nonzero_nIndex:
  "nIndex aux \<noteq> 0 \<Longrightarrow>
     check_verdict H aux hashAuxBlock nChainId params = Inl NotAGenerate
     \<and> \<not> check H aux hashAuxBlock nChainId params"
  by (simp add: check_def check_verdict_def)

theorem check_rejects_nonzero_nIndex_witness:
  "nIndex (simple_auxpow [] 1 [] 0 1) \<noteq> 0
   \<and> check_verdict toy_hash (simple_auxpow [] 1 [] 0 1) 1 0x62 (consensus CMainParams)
       = Inl NotAGenerate
   \<and> \<not> check toy_hash (simple_auxpow [] 1 [] 0 1) 1 0x62 (consensus CMainParams)"
  using check_rejects_nonzero_nIndex
    [of "simple_auxpow [] 1 [] 0 1" toy_hash 1 "0x62" "consensus CMainParams"]
  by (simp add: simple_auxpow_def)

text \<open>
  C2. For an AuxPoW whose \<^verbatim>\<open>nIndex\<close> is 0, \<^verbatim>\<open>CAuxPow::check\<close> of block.cpp (which
  tests \<^verbatim>\<open>nIndex != 0\<close> and gives \<^verbatim>\<open>nIndex\<close> to the Merkle verifier) and
  \<^verbatim>\<open>CAuxPow::check\<close> of block__.cpp (which has no such test and gives the literal 0)
  return the same verdict on the same aux block hash, chain id and parameters.
\<close>

theorem check_variants_agree_at_nIndex_0:
  "nIndex aux = 0 \<Longrightarrow>
     check_verdict H aux hashAuxBlock nChainId params
       = check_verdict_block2 H aux hashAuxBlock nChainId params
     \<and> check H aux hashAuxBlock nChainId params
       = check_block2 H aux hashAuxBlock nChainId params"
  by (simp add: check_def check_verdict_def check_block2_def check_verdict_block2_def)

theorem check_variants_agree_at_nIndex_0_witness:
  "nIndex (simple_auxpow (script_with_header 1 1 0) 0 [] 0 1) = 0
   \<and> check_verdict toy_hash (simple_auxpow (script_with_header 1 1 0) 0 [] 0 1)
       1 0x62 (consensus CMainParams) = Inr ()
   \<and> check_verdict_block2 toy_hash (simple_auxpow (script_with_header 1 1 0) 0 [] 0 1)
       1 0x62 (consensus CMainParams) = Inr ()"
proof -
  let ?aux = "simple_auxpow (script_with_header 1 1 0) 0 [] 0 1"
  have h: "nIndex ?aux = 0"
    by (simp add: simple_auxpow_def)
  have v: "check_verdict toy_hash ?aux 1 0x62 (consensus CMainParams) = Inr ()"
    by code_simp
  from check_variants_agree_at_nIndex_0 [OF h, of toy_hash 1 "0x62" "consensus CMainParams"] h v
  show ?thesis by simp
qed

section \<open>The chain id of the parent\<close>

text \<open>
  C8. Under parameters with \<^verbatim>\<open>fStrictChainId\<close> set, an AuxPoW whose parent block header
  carries our chain id (the version of the parent shifted right by 16) is rejected by
  \<^verbatim>\<open>CAuxPow::check\<close> with "Aux POW parent has our chain ID" (\<open>ParentHasOurChainId\<close>),
  provided the test of the coinbase index passed.
\<close>

theorem check_rejects_parent_with_our_chain_id:
  "fStrictChainId params \<Longrightarrow> GetChainId (parentBlock aux) = nChainId \<Longrightarrow> nIndex aux = 0 \<Longrightarrow>
     check_verdict H aux hashAuxBlock nChainId params = Inl ParentHasOurChainId
     \<and> \<not> check H aux hashAuxBlock nChainId params"
  by (simp add: check_def check_verdict_def)

theorem check_rejects_parent_with_our_chain_id_witness:
  "fStrictChainId (consensus CMainParams)
   \<and> GetChainId (parentBlock (simple_auxpow [] 0 [] 0 0x620001)) = 0x62
   \<and> nIndex (simple_auxpow [] 0 [] 0 0x620001) = 0
   \<and> check_verdict toy_hash (simple_auxpow [] 0 [] 0 0x620001) 1 0x62 (consensus CMainParams)
       = Inl ParentHasOurChainId
   \<and> \<not> check toy_hash (simple_auxpow [] 0 [] 0 0x620001) 1 0x62 (consensus CMainParams)"
proof -
  have s: "fStrictChainId (consensus CMainParams)"
    by (simp add: CMainParams_def)
  have c: "GetChainId (parentBlock (simple_auxpow [] 0 [] 0 0x620001)) = 0x62"
    by code_simp
  have i: "nIndex (simple_auxpow [] 0 [] 0 0x620001) = 0"
    by (simp add: simple_auxpow_def)
  from check_rejects_parent_with_our_chain_id [OF s c i, of toy_hash 1] s c i
  show ?thesis by simp
qed

section \<open>Legacy headers and AuxPoW headers\<close>

text \<open>
  C10. For every 32-bit version, \<^verbatim>\<open>IsLegacy\<close> and \<^verbatim>\<open>IsAuxpow\<close> are never both true of
  the same header: a header of version 1, or of version 2 with chain id 0, does not have
  bit 8 (\<open>0x100\<close>) of its version set.
\<close>

theorem IsLegacy_excludes_IsAuxpow:
  "\<not> (IsLegacy h \<and> IsAuxpow h)
   \<and> (nVersion h = 1 \<or> (nVersion h = 2 \<and> GetChainId h = 0) \<longrightarrow> nVersion h AND 0x100 = 0)"
  by (auto simp: IsLegacy_def IsAuxpow_def VERSION_AUXPOW_def)

theorem IsLegacy_excludes_IsAuxpow_witness:
  "IsLegacy (CBlockHeader 1 0 0 0 0 0 None) \<and> \<not> IsAuxpow (CBlockHeader 1 0 0 0 0 0 None)
   \<and> IsLegacy (CBlockHeader 2 0 0 0 0 0 None) \<and> \<not> IsAuxpow (CBlockHeader 2 0 0 0 0 0 None)
   \<and> IsAuxpow (CBlockHeader 0x620102 0 0 0 0 0 None)
   \<and> \<not> IsLegacy (CBlockHeader 0x620102 0 0 0 0 0 None)"
proof -
  have a: "IsLegacy (CBlockHeader 1 0 0 0 0 0 None)" "IsLegacy (CBlockHeader 2 0 0 0 0 0 None)"
    "IsAuxpow (CBlockHeader 0x620102 0 0 0 0 0 None)"
    by code_simp+
  from a IsLegacy_excludes_IsAuxpow [of "CBlockHeader 1 0 0 0 0 0 None"]
    IsLegacy_excludes_IsAuxpow [of "CBlockHeader 2 0 0 0 0 0 None"]
    IsLegacy_excludes_IsAuxpow [of "CBlockHeader 0x620102 0 0 0 0 0 None"]
  show ?thesis by blast
qed

section \<open>The Merkle verifier on an empty branch\<close>

text \<open>
  C6, as the claim states it, fails: \<^verbatim>\<open>CheckMerkleBranch\<close> does not return the leaf
  for every index. For the index \<open>-1\<close> it returns the all-zero hash, also on an empty
  branch.
\<close>

theorem CheckMerkleBranch_empty_sentinel_counterexample:
  "CheckMerkleBranch toy_hash 1 [] (- 1) = 0 \<and> CheckMerkleBranch toy_hash 1 [] (- 1) \<noteq> 1"
  by (simp add: CheckMerkleBranch_def)

text \<open>
  C6, amended. For every leaf hash \<open>x\<close> and every index \<open>i\<close> other than \<open>-1\<close>,
  \<^verbatim>\<open>CheckMerkleBranch(x, [], i)\<close> with an empty branch returns the leaf \<open>x\<close> unchanged;
  for the index \<open>-1\<close> it returns the all-zero hash.
\<close>

theorem CheckMerkleBranch_empty:
  "CheckMerkleBranch H x [] i = (if i = - 1 then 0 else x)"
  by (simp add: CheckMerkleBranch_def)

theorem CheckMerkleBranch_empty_witness:
  "CheckMerkleBranch toy_hash 0xc0ffee [] 5 = 0xc0ffee
   \<and> CheckMerkleBranch toy_hash 0xc0ffee [] (- 1) = 0"
  using CheckMerkleBranch_empty [of toy_hash "0xc0ffee" 5]
    CheckMerkleBranch_empty [of toy_hash "0xc0ffee" "- 1"]
  by simp

section \<open>The expected index\<close>

text \<open>
  C4. For every nonce, chain id and height \<open>k \<le> 30\<close>, \<^verbatim>\<open>getExpectedIndex\<close> has a
  value, and the value is \<open>((((nonce * 1103515245 + 12345) + chain_id) * 1103515245 +
  12345) mod 2 ^ 32) mod 2 ^ k\<close>, the formula of the specification, which the wrapping
  unsigned 32-bit products and sums compute. For the nonce 0, the chain id \<open>0x0062\<close> and
  the height 4 the code and the formula both give 8. Once every earlier check of
  \<^verbatim>\<open>CAuxPow::check\<close> has passed (the coinbase index is 0, the parent does not carry our
  chain id under strict parameters, the chain branch has at most 30 elements, the coinbase
  branch leads to the Merkle root of the parent, the reversed root is in the script at
  \<open>pc\<close>, placed right after the only merged-mining header or else within the first 20
  bytes, eight bytes follow it and the first four are \<open>1 << h\<close>), the verdict is "Aux POW
  wrong index" (\<open>WrongIndex\<close>) exactly when \<^verbatim>\<open>nChainIndex\<close> differs from the expected
  index of the nonce read from the script, and the proof is accepted otherwise.
\<close>

theorem getExpectedIndex_formula_and_WrongIndex:
  "(k \<le> 30 \<longrightarrow>
      (\<exists>r. getExpectedIndex nonce cid k = Some r
            \<and> sint r = ((((uint nonce * 1103515245 + 12345) + sint cid) * 1103515245 + 12345)
                          mod 2 ^ 32) mod 2 ^ k
            \<and> sint r = expected_index_spec (uint nonce) (sint cid) k))
   \<and> getExpectedIndex 0 0x0062 4 = Some 8
   \<and> expected_index_spec 0 0x0062 4 = 8
   \<and> (nIndex aux = 0
        \<and> \<not> (fStrictChainId params \<and> GetChainId (parentBlock aux) = nChainId)
        \<and> length (vChainMerkleBranch aux) \<le> 30
        \<and> CheckMerkleBranch H (tx_hash (tx aux)) (vMerkleBranch aux) 0
              = hashMerkleRoot (parentBlock aux)
        \<and> vin (tx aux) = txin # ins
        \<and> vchRootHash = rev (uint256_bytes
              (CheckMerkleBranch H hashAuxBlock (vChainMerkleBranch aux) (nChainIndex aux)))
        \<and> pc = search (scriptSig txin) vchRootHash
        \<and> pc \<noteq> length (scriptSig txin)
        \<and> (if search (scriptSig txin) pchMergedHdr \<noteq> length (scriptSig txin)
            then search (drop (search (scriptSig txin) pchMergedHdr + 1) (scriptSig txin)) pchMergedHdr
                   = length (drop (search (scriptSig txin) pchMergedHdr + 1) (scriptSig txin))
                 \<and> search (scriptSig txin) pchMergedHdr + 4 = pc
            else pc \<le> 20)
        \<and> pc + 32 + 8 \<le> length (scriptSig txin)
        \<and> ReadLE32 (scriptSig txin) (pc + 32) = push_bit (length (vChainMerkleBranch aux)) 1
      \<longrightarrow> (check_verdict H aux hashAuxBlock nChainId params = Inl WrongIndex
              \<longleftrightarrow> sint (nChainIndex aux)
                    \<noteq> expected_index_spec (uint (ReadLE32 (scriptSig txin) (pc + 36)))
                        (sint nChainId) (length (vChainMerkleBranch aux)))
           \<and> (check_verdict H aux hashAuxBlock nChainId params = Inr ()
              \<longleftrightarrow> sint (nChainIndex aux)
                    = expected_index_spec (uint (ReadLE32 (scriptSig txin) (pc + 36)))
                        (sint nChainId) (length (vChainMerkleBranch aux))))"
  (is "?A \<and> ?B \<and> ?B' \<and> (?HYPS \<longrightarrow> ?X)")
proof -
  have a: ?A
    using getExpectedIndex_spec [of k nonce cid]
    by (auto simp only: expected_index_spec_def)
  have b: "getExpectedIndex 0 0x0062 4 = Some 8"
    by (simp add: getExpectedIndex_def)
  have b': "expected_index_spec 0 0x0062 4 = 8"
    by (simp add: expected_index_spec_def)
  have c: "?HYPS \<longrightarrow> ?X"
  proof
    assume h: ?HYPS
    then have v: "check_verdict H aux hashAuxBlock nChainId params
           = (if sint (nChainIndex aux)
                   \<noteq> expected_index_spec (uint (ReadLE32 (scriptSig txin) (pc + 36)))
                       (sint nChainId) (length (vChainMerkleBranch aux))
              then Inl WrongIndex else Inr ())"
      by (elim conjE) (rule index_test_verdict; assumption)
    show ?X
      by (simp only: v) simp
  qed
  from a b b' c show ?thesis
    by (intro conjI)
qed



theorem getExpectedIndex_formula_and_WrongIndex_witness:
  "(4::nat) \<le> 30
   \<and> getExpectedIndex 0 0x0062 4 = Some 8
   \<and> nIndex (simple_auxpow (script_with_header 67 2 0) 0 [2] 0 1) = 0
   \<and> length (vChainMerkleBranch (simple_auxpow (script_with_header 67 2 0) 0 [2] 0 1)) = 1
   \<and> CheckMerkleBranch toy_hash 1 [2] 0 = 67
   \<and> search (script_with_header 67 2 0) (rev (uint256_bytes 67)) = 20
   \<and> search (script_with_header 67 2 0) pchMergedHdr = 16
   \<and> length (script_with_header 67 2 0) = 60
   \<and> ReadLE32 (script_with_header 67 2 0) 52 = 2
   \<and> ReadLE32 (script_with_header 67 2 0) 56 = 0
   \<and> expected_index_spec 0 0x62 1 = 0
   \<and> check_verdict toy_hash (simple_auxpow (script_with_header 67 2 0) 0 [2] 0 1) 1 0x62
        (consensus CMainParams) = Inr ()
   \<and> check_verdict toy_hash (simple_auxpow (script_with_header 67 2 0) 0 [2] 0 1) 1 0x62
        (consensus CMainParams) \<noteq> Inl WrongIndex"
proof -
  let ?script = "script_with_header 67 2 0"
  let ?aux = "simple_auxpow ?script 0 [2] 0 1"
  let ?txin = "\<lparr> prevout = \<lparr> prevout_hash = 0, prevout_n = 0xffffffff \<rparr>,
                 scriptSig = ?script, nSequence = 0xffffffff \<rparr>"
  note t = getExpectedIndex_formula_and_WrongIndex
    [where k = 4 and nonce = 0 and cid = "0x62" and aux = ?aux and params = "consensus CMainParams"
       and nChainId = "0x62" and H = toy_hash and txin = ?txin and ins = "[]"
       and vchRootHash = "rev (uint256_bytes 67)" and hashAuxBlock = 1 and pc = 20]
  have facts:
    "nIndex ?aux = 0"
    "length (vChainMerkleBranch ?aux) = 1"
    "CheckMerkleBranch toy_hash 1 [2] 0 = 67"
    "search ?script (rev (uint256_bytes 67)) = 20"
    "search ?script pchMergedHdr = 16"
    "length ?script = 60"
    "ReadLE32 ?script 52 = 2"
    "ReadLE32 ?script 56 = 0"
    "expected_index_spec 0 0x62 1 = 0"
    by code_simp+
  have hyps:
    "\<not> (fStrictChainId (consensus CMainParams) \<and> GetChainId (parentBlock ?aux) = 0x62)"
    "CheckMerkleBranch toy_hash (tx_hash (tx ?aux)) (vMerkleBranch ?aux) 0
       = hashMerkleRoot (parentBlock ?aux)"
    "vin (tx ?aux) = [?txin]"
    "search (drop (16 + 1) ?script) pchMergedHdr = length (drop (16 + 1) ?script)"
    "nChainIndex ?aux = 0" "vChainMerkleBranch ?aux = [2]"
    by code_simp+
  have "check_verdict toy_hash ?aux 1 0x62 (consensus CMainParams) = Inr ()
        \<and> check_verdict toy_hash ?aux 1 0x62 (consensus CMainParams) \<noteq> Inl WrongIndex"
    using t facts hyps by simp
  with facts t show ?thesis
    by simp
qed


section \<open>The position of the root without a merged-mining header\<close>

text \<open>
  C7. In \<^verbatim>\<open>CAuxPow::check\<close>, with the earlier checks passed and no merged-mining header
  in the coinbase script: a script made of 20 bytes of preamble followed by the 32 bytes
  of the reversed chain Merkle root, which occurs first at offset 20, passes the test of
  the position: the verdict is that of the size and index checks that follow, and when the
  script ends with the root it is "missing chain merkle tree size and nonce"
  (\<open>ChainMerkleSizeMissing\<close>). With 21 bytes of preamble, the root first at offset 21,
  the proof is rejected with \<open>RootMustStartInFirst20Bytes\<close>.
\<close>

theorem root_position_boundary:
  "nIndex aux = 0
      \<and> \<not> (fStrictChainId params \<and> GetChainId (parentBlock aux) = nChainId)
      \<and> length (vChainMerkleBranch aux) \<le> 30
      \<and> CheckMerkleBranch H (tx_hash (tx aux)) (vMerkleBranch aux) 0
            = hashMerkleRoot (parentBlock aux)
      \<and> vin (tx aux) = txin # ins
      \<and> vchRootHash = rev (uint256_bytes
            (CheckMerkleBranch H hashAuxBlock (vChainMerkleBranch aux) (nChainIndex aux)))
      \<and> scriptSig txin = preamble @ vchRootHash @ rest
      \<and> search (scriptSig txin) pchMergedHdr = length (scriptSig txin)
      \<and> search (scriptSig txin) vchRootHash = length preamble
    \<longrightarrow> (length preamble = 20 \<longrightarrow>
           check_verdict H aux hashAuxBlock nChainId params
             = check_size_and_index aux nChainId (scriptSig txin) vchRootHash 20
           \<and> check_verdict H aux hashAuxBlock nChainId params \<noteq> Inl RootMustStartInFirst20Bytes
           \<and> (rest = [] \<longrightarrow>
                check_verdict H aux hashAuxBlock nChainId params = Inl ChainMerkleSizeMissing))
       \<and> (length preamble = 21 \<longrightarrow>
           check_verdict H aux hashAuxBlock nChainId params = Inl RootMustStartInFirst20Bytes)"
  (is "?HYPS \<longrightarrow> ?X")
proof
  assume h: ?HYPS
  then have v: "check_verdict H aux hashAuxBlock nChainId params
           = (if length preamble > 20 then Inl RootMustStartInFirst20Bytes
              else check_size_and_index aux nChainId (scriptSig txin) vchRootHash (length preamble))"
    by (elim conjE) (rule position_check_without_header; assumption)
  from h have l: "length vchRootHash = 32"
    by (simp add: length_uint256_bytes)
  from h have s: "scriptSig txin = preamble @ vchRootHash @ rest"
    by blast
  have short: "check_size_and_index aux nChainId (scriptSig txin) vchRootHash 20
                 = Inl ChainMerkleSizeMissing"
    if "length preamble = 20" "rest = []"
    using that l by (simp add: check_size_and_index_def s)
  show ?X
    using short by (simp add: v check_size_and_index_not_position)
qed

theorem root_position_boundary_witness:
  "nIndex (simple_auxpow (script_without_header 20 1 []) 0 [] 0 1) = 0
   \<and> nIndex (simple_auxpow (script_without_header 21 1 []) 0 [] 0 1) = 0
   \<and> length (replicate 20 (0::byte)) = 20
   \<and> length (replicate 21 (0::byte)) = 21
   \<and> script_without_header 20 1 [] = replicate 20 0 @ rev (uint256_bytes 1) @ []
   \<and> script_without_header 21 1 [] = replicate 21 0 @ rev (uint256_bytes 1) @ []
   \<and> search (script_without_header 20 1 []) pchMergedHdr = length (script_without_header 20 1 [])
   \<and> search (script_without_header 21 1 []) pchMergedHdr = length (script_without_header 21 1 [])
   \<and> search (script_without_header 20 1 []) (rev (uint256_bytes 1)) = 20
   \<and> search (script_without_header 21 1 []) (rev (uint256_bytes 1)) = 21
   \<and> check_verdict toy_hash (simple_auxpow (script_without_header 20 1 []) 0 [] 0 1) 1 0x62
        (consensus CMainParams) = Inl ChainMerkleSizeMissing
   \<and> check_verdict toy_hash (simple_auxpow (script_without_header 21 1 []) 0 [] 0 1) 1 0x62
        (consensus CMainParams) = Inl RootMustStartInFirst20Bytes"
proof -
  let ?s20 = "script_without_header 20 1 []"
  let ?s21 = "script_without_header 21 1 []"
  let ?aux20 = "simple_auxpow ?s20 0 [] 0 1"
  let ?aux21 = "simple_auxpow ?s21 0 [] 0 1"
  let ?in20 = "\<lparr> prevout = \<lparr> prevout_hash = 0, prevout_n = 0xffffffff \<rparr>,
                 scriptSig = ?s20, nSequence = 0xffffffff \<rparr>"
  let ?in21 = "\<lparr> prevout = \<lparr> prevout_hash = 0, prevout_n = 0xffffffff \<rparr>,
                 scriptSig = ?s21, nSequence = 0xffffffff \<rparr>"
  note t20 = root_position_boundary
    [where aux = ?aux20 and params = "consensus CMainParams" and nChainId = "0x62"
       and H = toy_hash and txin = ?in20 and ins = "[]" and vchRootHash = "rev (uint256_bytes 1)"
       and hashAuxBlock = 1 and preamble = "replicate 20 0" and rest = "[]"]
  note t21 = root_position_boundary
    [where aux = ?aux21 and params = "consensus CMainParams" and nChainId = "0x62"
       and H = toy_hash and txin = ?in21 and ins = "[]" and vchRootHash = "rev (uint256_bytes 1)"
       and hashAuxBlock = 1 and preamble = "replicate 21 0" and rest = "[]"]
  have v20: "check_verdict toy_hash ?aux20 1 0x62 (consensus CMainParams)
               = Inl ChainMerkleSizeMissing"
    using t20
    apply -
    apply (drule mp)
     apply (intro conjI; code_simp)
    apply auto
    done
  have v21: "check_verdict toy_hash ?aux21 1 0x62 (consensus CMainParams)
               = Inl RootMustStartInFirst20Bytes"
    using t21
    apply -
    apply (drule mp)
     apply (intro conjI; code_simp)
    apply auto
    done
  have facts:
    "nIndex ?aux20 = 0" "nIndex ?aux21 = 0"
    "length (replicate 20 (0::byte)) = 20"
    "length (replicate 21 (0::byte)) = 21"
    "?s20 = replicate 20 0 @ rev (uint256_bytes 1) @ []"
    "?s21 = replicate 21 0 @ rev (uint256_bytes 1) @ []"
    "search ?s20 pchMergedHdr = length ?s20"
    "search ?s21 pchMergedHdr = length ?s21"
    "search ?s20 (rev (uint256_bytes 1)) = 20"
    "search ?s21 (rev (uint256_bytes 1)) = 21"
    by code_simp+
  from facts v20 v21 show ?thesis
    by (intro conjI)
qed

section \<open>The hash of a header\<close>

text \<open>
  C3. For every block header, \<^verbatim>\<open>GetHash\<close> is the double SHA-256 (the parameter \<open>H\<close>) of
  the serialization of the six fields version, previous block, Merkle root, time, bits
  and nonce, which is 80 bytes long; so two headers that agree on these six fields have
  the same hash, whether or not they carry an AuxPoW and whatever it holds.
\<close>

theorem GetHash_depends_on_preimage_only:
  "GetHash H ser_tx h
     = Some (H (ser_uint32 (nVersion h) @ uint256_bytes (hashPrevBlock h)
                @ uint256_bytes (hashMerkleRoot h) @ ser_uint32 (nTime h)
                @ ser_uint32 (nBits h) @ ser_uint32 (nNonce h)))
   \<and> length (ser_uint32 (nVersion h) @ uint256_bytes (hashPrevBlock h)
                @ uint256_bytes (hashMerkleRoot h) @ ser_uint32 (nTime h)
                @ ser_uint32 (nBits h) @ ser_uint32 (nNonce h)) = 80
   \<and> (nVersion h = nVersion h' \<and> hashPrevBlock h = hashPrevBlock h'
        \<and> hashMerkleRoot h = hashMerkleRoot h' \<and> nTime h = nTime h'
        \<and> nBits h = nBits h' \<and> nNonce h = nNonce h'
      \<longrightarrow> GetHash H ser_tx h = GetHash H ser_tx' h')"
  by (simp add: GetHash_def SerializeHash_CBlockHeader_def Serialize_CBlockHeader_def
      SER_GETHASH_def length_uint256_bytes length_ser_uint32)



theorem GetHash_depends_on_preimage_only_witness:
  "nVersion (CBlockHeader 0x620102 5 6 7 8 9 (Some (simple_auxpow [] 0 [] 0 1)))
     = nVersion (CBlockHeader 0x620102 5 6 7 8 9 None)
   \<and> auxpow (CBlockHeader 0x620102 5 6 7 8 9 (Some (simple_auxpow [] 0 [] 0 1)))
     \<noteq> auxpow (CBlockHeader 0x620102 5 6 7 8 9 None)
   \<and> GetHash toy_hash (\<lambda>t. [])
        (CBlockHeader 0x620102 5 6 7 8 9 (Some (simple_auxpow [] 0 [] 0 1)))
     = GetHash toy_hash (\<lambda>t. [1]) (CBlockHeader 0x620102 5 6 7 8 9 None)
   \<and> Serialize_CBlockHeader (\<lambda>t. []) SER_NETWORK
        (CBlockHeader 0x620102 5 6 7 8 9 (Some (simple_auxpow [] 0 [] 0 1)))
     \<noteq> Serialize_CBlockHeader (\<lambda>t. []) SER_NETWORK (CBlockHeader 0x620102 5 6 7 8 9 None)"
proof -
  let ?h = "CBlockHeader 0x620102 5 6 7 8 9 (Some (simple_auxpow [] 0 [] 0 1))"
  let ?h' = "CBlockHeader 0x620102 5 6 7 8 9 None"
  have six: "nVersion ?h = nVersion ?h' \<and> hashPrevBlock ?h = hashPrevBlock ?h'
        \<and> hashMerkleRoot ?h = hashMerkleRoot ?h' \<and> nTime ?h = nTime ?h'
        \<and> nBits ?h = nBits ?h' \<and> nNonce ?h = nNonce ?h'"
    by simp
  have "GetHash toy_hash (\<lambda>t. []) ?h = GetHash toy_hash (\<lambda>t. [1]) ?h'"
    using GetHash_depends_on_preimage_only [of toy_hash "\<lambda>t. []" ?h ?h' "\<lambda>t. [1]"] six
    by blast
  moreover have "Serialize_CBlockHeader (\<lambda>t. []) SER_NETWORK ?h
     \<noteq> Serialize_CBlockHeader (\<lambda>t. []) SER_NETWORK ?h'"
    by code_simp
  ultimately show ?thesis
    by simp
qed

section \<open>The target time span\<close>

text \<open>
  C5, as the claim states it, fails on the regtest parameters: there the time span before
  the transition height 100000 is 1 and from it onward 60, so it rises from height 99999
  to height 100000.
\<close>

theorem regtest_timespan_rises_counterexample:
  "CreateChainParams ''regtest'' = Some CRegTestParams
   \<and> nPowTargetTimespan (consensus CRegTestParams) 99999 = 1
   \<and> nPowTargetTimespan (consensus CRegTestParams) (99999 + 1) = 60
   \<and> \<not> nPowTargetTimespan (consensus CRegTestParams) (99999 + 1)
         \<le> nPowTargetTimespan (consensus CRegTestParams) 99999"
  by (simp add: CreateChainParams_def nPowTargetTimespan_def timespan_fields)

text \<open>
  C5, amended. For the parameters of every network that can be selected (main, test and
  regtest) and every height \<open>h\<close>, the target time span is \<^verbatim>\<open>nPowTargetTimespanBegin\<close>
  before the height \<^verbatim>\<open>PowTargetTimespan60Height\<close> and 60 from it onward, so it changes
  at that single height only. On main and test it does not grow: the time span at
  \<open>h + 1\<close> is at most the one at \<open>h\<close>. On regtest it does not shrink: it goes from 1
  to 60.
\<close>

theorem nPowTargetTimespan_single_step:
  "CreateChainParams chain = Some cp \<longrightarrow>
     nPowTargetTimespan (consensus cp) h
       = (if h < PowTargetTimespan60Height (consensus cp)
          then nPowTargetTimespanBegin (consensus cp) else 60)
     \<and> (nPowTargetTimespan (consensus cp) (h + 1) \<noteq> nPowTargetTimespan (consensus cp) h
          \<longrightarrow> h + 1 = PowTargetTimespan60Height (consensus cp))
     \<and> (chain = ''main'' \<or> chain = ''test''
          \<longrightarrow> nPowTargetTimespan (consensus cp) (h + 1) \<le> nPowTargetTimespan (consensus cp) h)
     \<and> (chain = ''regtest''
          \<longrightarrow> nPowTargetTimespan (consensus cp) h \<le> nPowTargetTimespan (consensus cp) (h + 1))"
proof
  assume "CreateChainParams chain = Some cp"
  then consider (main) "chain = ''main''" "cp = CMainParams"
    | (test) "chain = ''test''" "cp = CTestNetParams"
    | (regtest) "chain = ''regtest''" "cp = CRegTestParams"
    using CreateChainParams_cases by blast
  then show "nPowTargetTimespan (consensus cp) h
       = (if h < PowTargetTimespan60Height (consensus cp)
          then nPowTargetTimespanBegin (consensus cp) else 60)
     \<and> (nPowTargetTimespan (consensus cp) (h + 1) \<noteq> nPowTargetTimespan (consensus cp) h
          \<longrightarrow> h + 1 = PowTargetTimespan60Height (consensus cp))
     \<and> (chain = ''main'' \<or> chain = ''test''
          \<longrightarrow> nPowTargetTimespan (consensus cp) (h + 1) \<le> nPowTargetTimespan (consensus cp) h)
     \<and> (chain = ''regtest''
          \<longrightarrow> nPowTargetTimespan (consensus cp) h \<le> nPowTargetTimespan (consensus cp) (h + 1))"
  proof cases
    case main
    have "chain \<noteq> ''regtest''"
      unfolding main by (rule network_names_differ)
    then show ?thesis
      unfolding main(2) nPowTargetTimespan_def timespan_fields by simp
  next
    case test
    have "chain \<noteq> ''regtest''"
      unfolding test by (rule network_names_differ)
    then show ?thesis
      unfolding test(2) nPowTargetTimespan_def timespan_fields by simp
  next
    case regtest
    have "chain \<noteq> ''main''" "chain \<noteq> ''test''"
      unfolding regtest using network_names_differ by simp_all
    then show ?thesis
      unfolding regtest(2) nPowTargetTimespan_def timespan_fields by simp
  qed
qed

theorem nPowTargetTimespan_single_step_witness:
  "CreateChainParams ''main'' = Some CMainParams
   \<and> nPowTargetTimespan (consensus CMainParams) 144999 = 14400
   \<and> nPowTargetTimespan (consensus CMainParams) (144999 + 1) = 60
   \<and> 144999 + 1 = PowTargetTimespan60Height (consensus CMainParams)
   \<and> nPowTargetTimespan (consensus CMainParams) (144999 + 1)
       \<le> nPowTargetTimespan (consensus CMainParams) 144999
   \<and> CreateChainParams ''regtest'' = Some CRegTestParams
   \<and> nPowTargetTimespan (consensus CRegTestParams) 99999
       \<le> nPowTargetTimespan (consensus CRegTestParams) (99999 + 1)"
proof -
  have m: "CreateChainParams ''main'' = Some CMainParams"
    by (simp add: CreateChainParams_def)
  have r: "CreateChainParams ''regtest'' = Some CRegTestParams"
    by (simp add: CreateChainParams_def)
  have v: "nPowTargetTimespan (consensus CMainParams) 144999 = 14400"
    "nPowTargetTimespan (consensus CMainParams) (144999 + 1) = 60"
    "144999 + 1 = PowTargetTimespan60Height (consensus CMainParams)"
    by (simp_all add: nPowTargetTimespan_def timespan_fields)
  have le_main: "nPowTargetTimespan (consensus CMainParams) (144999 + 1)
       \<le> nPowTargetTimespan (consensus CMainParams) 144999"
    using nPowTargetTimespan_single_step [of "''main''" CMainParams 144999] m by blast
  have le_regtest: "nPowTargetTimespan (consensus CRegTestParams) 99999
       \<le> nPowTargetTimespan (consensus CRegTestParams) (99999 + 1)"
    using nPowTargetTimespan_single_step [of "''regtest''" CRegTestParams 99999] r by blast
  from m r v le_main le_regtest show ?thesis
    by (intro conjI)
qed

section \<open>The genesis block of the main network\<close>

text \<open>
  The double SHA-256 of the coinbase transaction and of the header of the genesis block,
  one block of 64 bytes at a time: the split of the padded message into blocks, the state
  after each block, the digest, and the outer hash of the digest.
\<close>

lemma genesis_tx_inner_chunks:
  "chunks64 (sha256_pad [
      0x01, 0x00, 0x00, 0x00, 0x01, 0x00, 0x00, 0x00, 0x00, 0x00, 0x00, 0x00, 0x00, 0x00, 0x00, 0x00,
      0x00, 0x00, 0x00, 0x00, 0x00, 0x00, 0x00, 0x00, 0x00, 0x00, 0x00, 0x00, 0x00, 0x00, 0x00, 0x00,
      0x00, 0x00, 0x00, 0x00, 0x00, 0xff, 0xff, 0xff, 0xff, 0x10, 0x04, 0xff, 0xff, 0x00, 0x1d, 0x01,
      0x04, 0x08, 0x4e, 0x69, 0x6e, 0x74, 0x6f, 0x6e, 0x64, 0x6f, 0xff, 0xff, 0xff, 0xff, 0x01, 0x00,
      0x58, 0x85, 0x0c, 0x02, 0x00, 0x00, 0x00, 0x43, 0x41, 0x04, 0x01, 0x84, 0x71, 0x0f, 0xa6, 0x89,
      0xad, 0x50, 0x23, 0x69, 0x0c, 0x80, 0xf3, 0xa4, 0x9c, 0x8f, 0x13, 0xf8, 0xd4, 0x5b, 0x8c, 0x85,
      0x7f, 0xbc, 0xbc, 0x8b, 0xc4, 0xa8, 0xe4, 0xd3, 0xeb, 0x4b, 0x10, 0xf4, 0xd4, 0x60, 0x4f, 0xa0,
      0x8d, 0xce, 0x60, 0x1a, 0xaf, 0x0f, 0x47, 0x02, 0x16, 0xfe, 0x1b, 0x51, 0x85, 0x0b, 0x4a, 0xcf,
      0x21, 0xb1, 0x79, 0xc4, 0x50, 0x70, 0xac, 0x7b, 0x03, 0xa9, 0xac, 0x00, 0x00, 0x00, 0x00]) =
    [[
      0x01, 0x00, 0x00, 0x00, 0x01, 0x00, 0x00, 0x00, 0x00, 0x00, 0x00, 0x00, 0x00, 0x00, 0x00, 0x00,
      0x00, 0x00, 0x00, 0x00, 0x00, 0x00, 0x00, 0x00, 0x00, 0x00, 0x00, 0x00, 0x00, 0x00, 0x00, 0x00,
      0x00, 0x00, 0x00, 0x00, 0x00, 0xff, 0xff, 0xff, 0xff, 0x10, 0x04, 0xff, 0xff, 0x00, 0x1d, 0x01,
      0x04, 0x08, 0x4e, 0x69, 0x6e, 0x74, 0x6f, 0x6e, 0x64, 0x6f, 0xff, 0xff, 0xff, 0xff, 0x01, 0x00],
     [
      0x58, 0x85, 0x0c, 0x02, 0x00, 0x00, 0x00, 0x43, 0x41, 0x04, 0x01, 0x84, 0x71, 0x0f, 0xa6, 0x89,
      0xad, 0x50, 0x23, 0x69, 0x0c, 0x80, 0xf3, 0xa4, 0x9c, 0x8f, 0x13, 0xf8, 0xd4, 0x5b, 0x8c, 0x85,
      0x7f, 0xbc, 0xbc, 0x8b, 0xc4, 0xa8, 0xe4, 0xd3, 0xeb, 0x4b, 0x10, 0xf4, 0xd4, 0x60, 0x4f, 0xa0,
      0x8d, 0xce, 0x60, 0x1a, 0xaf, 0x0f, 0x47, 0x02, 0x16, 0xfe, 0x1b, 0x51, 0x85, 0x0b, 0x4a, 0xcf],
     [
      0x21, 0xb1, 0x79, 0xc4, 0x50, 0x70, 0xac, 0x7b, 0x03, 0xa9, 0xac, 0x00, 0x00, 0x00, 0x00, 0x80,
      0x00, 0x00, 0x00, 0x00, 0x00, 0x00, 0x00, 0x00, 0x00, 0x00, 0x00, 0x00, 0x00, 0x00, 0x00, 0x00,
      0x00, 0x00, 0x00, 0x00, 0x00, 0x00, 0x00, 0x00, 0x00, 0x00, 0x00, 0x00, 0x00, 0x00, 0x00, 0x00,
      0x00, 0x00, 0x00, 0x00, 0x00, 0x00, 0x00, 0x00, 0x00, 0x00, 0x00, 0x00, 0x00, 0x00, 0x04, 0x78]]"
  by code_simp

lemma genesis_tx_inner_block1:
  "sha256_compress sha256_init
    [
      0x01, 0x00, 0x00, 0x00, 0x01, 0x00, 0x00, 0x00, 0x00, 0x00, 0x00, 0x00, 0x00, 0x00, 0x00, 0x00,
      0x00, 0x00, 0x00, 0x00, 0x00, 0x00, 0x00, 0x00, 0x00, 0x00, 0x00, 0x00, 0x00, 0x00, 0x00, 0x00,
      0x00, 0x00, 0x00, 0x00, 0x00, 0xff, 0xff, 0xff, 0xff, 0x10, 0x04, 0xff, 0xff, 0x00, 0x1d, 0x01,
      0x04, 0x08, 0x4e, 0x69, 0x6e, 0x74, 0x6f, 0x6e, 0x64, 0x6f, 0xff, 0xff, 0xff, 0xff, 0x01, 0x00] =
    (0xd7e201f5, 0x04f8beb5, 0x98ff88f1, 0x57df85d6, 0x4875d18a, 0x9aa781d9, 0xc46938bc, 0x4cf3741e)"
  by code_simp

lemma genesis_tx_inner_block2:
  "sha256_compress (0xd7e201f5, 0x04f8beb5, 0x98ff88f1, 0x57df85d6, 0x4875d18a, 0x9aa781d9, 0xc46938bc, 0x4cf3741e)
    [
      0x58, 0x85, 0x0c, 0x02, 0x00, 0x00, 0x00, 0x43, 0x41, 0x04, 0x01, 0x84, 0x71, 0x0f, 0xa6, 0x89,
      0xad, 0x50, 0x23, 0x69, 0x0c, 0x80, 0xf3, 0xa4, 0x9c, 0x8f, 0x13, 0xf8, 0xd4, 0x5b, 0x8c, 0x85,
      0x7f, 0xbc, 0xbc, 0x8b, 0xc4, 0xa8, 0xe4, 0xd3, 0xeb, 0x4b, 0x10, 0xf4, 0xd4, 0x60, 0x4f, 0xa0,
      0x8d, 0xce, 0x60, 0x1a, 0xaf, 0x0f, 0x47, 0x02, 0x16, 0xfe, 0x1b, 0x51, 0x85, 0x0b, 0x4a, 0xcf] =
    (0xefba08b1, 0x08fb1329, 0xb939e814, 0x8f44d139, 0xc4b60a4a, 0x7fb72121, 0x66b82d12, 0x2e870d01)"
  by code_simp

lemma genesis_tx_inner_block3:
  "sha256_compress (0xefba08b1, 0x08fb1329, 0xb939e814, 0x8f44d139, 0xc4b60a4a, 0x7fb72121, 0x66b82d12, 0x2e870d01)
    [
      0x21, 0xb1, 0x79, 0xc4, 0x50, 0x70, 0xac, 0x7b, 0x03, 0xa9, 0xac, 0x00, 0x00, 0x00, 0x00, 0x80,
      0x00, 0x00, 0x00, 0x00, 0x00, 0x00, 0x00, 0x00, 0x00, 0x00, 0x00, 0x00, 0x00, 0x00, 0x00, 0x00,
      0x00, 0x00, 0x00, 0x00, 0x00, 0x00, 0x00, 0x00, 0x00, 0x00, 0x00, 0x00, 0x00, 0x00, 0x00, 0x00,
      0x00, 0x00, 0x00, 0x00, 0x00, 0x00, 0x00, 0x00, 0x00, 0x00, 0x00, 0x00, 0x00, 0x00, 0x04, 0x78] =
    (0x69982511, 0x3154ee09, 0xd0ceb872, 0x5d6d6513, 0x698316cc, 0xda67a1c6, 0x80849d90, 0x5dc16df8)"
  by code_simp

lemma genesis_tx_inner_digest:
  "sha256 [
      0x01, 0x00, 0x00, 0x00, 0x01, 0x00, 0x00, 0x00, 0x00, 0x00, 0x00, 0x00, 0x00, 0x00, 0x00, 0x00,
      0x00, 0x00, 0x00, 0x00, 0x00, 0x00, 0x00, 0x00, 0x00, 0x00, 0x00, 0x00, 0x00, 0x00, 0x00, 0x00,
      0x00, 0x00, 0x00, 0x00, 0x00, 0xff, 0xff, 0xff, 0xff, 0x10, 0x04, 0xff, 0xff, 0x00, 0x1d, 0x01,
      0x04, 0x08, 0x4e, 0x69, 0x6e, 0x74, 0x6f, 0x6e, 0x64, 0x6f, 0xff, 0xff, 0xff, 0xff, 0x01, 0x00,
      0x58, 0x85, 0x0c, 0x02, 0x00, 0x00, 0x00, 0x43, 0x41, 0x04, 0x01, 0x84, 0x71, 0x0f, 0xa6, 0x89,
      0xad, 0x50, 0x23, 0x69, 0x0c, 0x80, 0xf3, 0xa4, 0x9c, 0x8f, 0x13, 0xf8, 0xd4, 0x5b, 0x8c, 0x85,
      0x7f, 0xbc, 0xbc, 0x8b, 0xc4, 0xa8, 0xe4, 0xd3, 0xeb, 0x4b, 0x10, 0xf4, 0xd4, 0x60, 0x4f, 0xa0,
      0x8d, 0xce, 0x60, 0x1a, 0xaf, 0x0f, 0x47, 0x02, 0x16, 0xfe, 0x1b, 0x51, 0x85, 0x0b, 0x4a, 0xcf,
      0x21, 0xb1, 0x79, 0xc4, 0x50, 0x70, 0xac, 0x7b, 0x03, 0xa9, 0xac, 0x00, 0x00, 0x00, 0x00] =
    [
      0x69, 0x98, 0x25, 0x11, 0x31, 0x54, 0xee, 0x09, 0xd0, 0xce, 0xb8, 0x72, 0x5d, 0x6d, 0x65, 0x13,
      0x69, 0x83, 0x16, 0xcc, 0xda, 0x67, 0xa1, 0xc6, 0x80, 0x84, 0x9d, 0x90, 0x5d, 0xc1, 0x6d, 0xf8]"
proof -
  have "sha256 [
      0x01, 0x00, 0x00, 0x00, 0x01, 0x00, 0x00, 0x00, 0x00, 0x00, 0x00, 0x00, 0x00, 0x00, 0x00, 0x00,
      0x00, 0x00, 0x00, 0x00, 0x00, 0x00, 0x00, 0x00, 0x00, 0x00, 0x00, 0x00, 0x00, 0x00, 0x00, 0x00,
      0x00, 0x00, 0x00, 0x00, 0x00, 0xff, 0xff, 0xff, 0xff, 0x10, 0x04, 0xff, 0xff, 0x00, 0x1d, 0x01,
      0x04, 0x08, 0x4e, 0x69, 0x6e, 0x74, 0x6f, 0x6e, 0x64, 0x6f, 0xff, 0xff, 0xff, 0xff, 0x01, 0x00,
      0x58, 0x85, 0x0c, 0x02, 0x00, 0x00, 0x00, 0x43, 0x41, 0x04, 0x01, 0x84, 0x71, 0x0f, 0xa6, 0x89,
      0xad, 0x50, 0x23, 0x69, 0x0c, 0x80, 0xf3, 0xa4, 0x9c, 0x8f, 0x13, 0xf8, 0xd4, 0x5b, 0x8c, 0x85,
      0x7f, 0xbc, 0xbc, 0x8b, 0xc4, 0xa8, 0xe4, 0xd3, 0xeb, 0x4b, 0x10, 0xf4, 0xd4, 0x60, 0x4f, 0xa0,
      0x8d, 0xce, 0x60, 0x1a, 0xaf, 0x0f, 0x47, 0x02, 0x16, 0xfe, 0x1b, 0x51, 0x85, 0x0b, 0x4a, 0xcf,
      0x21, 0xb1, 0x79, 0xc4, 0x50, 0x70, 0xac, 0x7b, 0x03, 0xa9, 0xac, 0x00, 0x00, 0x00, 0x00] =
    state_bytes (0x69982511, 0x3154ee09, 0xd0ceb872, 0x5d6d6513, 0x698316cc, 0xda67a1c6, 0x80849d90, 0x5dc16df8)"
    by (simp only: sha256_def Let_def genesis_tx_inner_chunks foldl_Cons foldl_Nil genesis_tx_inner_block1 genesis_tx_inner_block2 genesis_tx_inner_block3)
  also have "\<dots> =
    [
      0x69, 0x98, 0x25, 0x11, 0x31, 0x54, 0xee, 0x09, 0xd0, 0xce, 0xb8, 0x72, 0x5d, 0x6d, 0x65, 0x13,
      0x69, 0x83, 0x16, 0xcc, 0xda, 0x67, 0xa1, 0xc6, 0x80, 0x84, 0x9d, 0x90, 0x5d, 0xc1, 0x6d, 0xf8]"
    by code_simp
  finally show ?thesis .
qed

lemma genesis_tx_outer_chunks:
  "chunks64 (sha256_pad [
      0x69, 0x98, 0x25, 0x11, 0x31, 0x54, 0xee, 0x09, 0xd0, 0xce, 0xb8, 0x72, 0x5d, 0x6d, 0x65, 0x13,
      0x69, 0x83, 0x16, 0xcc, 0xda, 0x67, 0xa1, 0xc6, 0x80, 0x84, 0x9d, 0x90, 0x5d, 0xc1, 0x6d, 0xf8]) =
    [[
      0x69, 0x98, 0x25, 0x11, 0x31, 0x54, 0xee, 0x09, 0xd0, 0xce, 0xb8, 0x72, 0x5d, 0x6d, 0x65, 0x13,
      0x69, 0x83, 0x16, 0xcc, 0xda, 0x67, 0xa1, 0xc6, 0x80, 0x84, 0x9d, 0x90, 0x5d, 0xc1, 0x6d, 0xf8,
      0x80, 0x00, 0x00, 0x00, 0x00, 0x00, 0x00, 0x00, 0x00, 0x00, 0x00, 0x00, 0x00, 0x00, 0x00, 0x00,
      0x00, 0x00, 0x00, 0x00, 0x00, 0x00, 0x00, 0x00, 0x00, 0x00, 0x00, 0x00, 0x00, 0x00, 0x01, 0x00]]"
  by code_simp

lemma genesis_tx_outer_block1:
  "sha256_compress sha256_init
    [
      0x69, 0x98, 0x25, 0x11, 0x31, 0x54, 0xee, 0x09, 0xd0, 0xce, 0xb8, 0x72, 0x5d, 0x6d, 0x65, 0x13,
      0x69, 0x83, 0x16, 0xcc, 0xda, 0x67, 0xa1, 0xc6, 0x80, 0x84, 0x9d, 0x90, 0x5d, 0xc1, 0x6d, 0xf8,
      0x80, 0x00, 0x00, 0x00, 0x00, 0x00, 0x00, 0x00, 0x00, 0x00, 0x00, 0x00, 0x00, 0x00, 0x00, 0x00,
      0x00, 0x00, 0x00, 0x00, 0x00, 0x00, 0x00, 0x00, 0x00, 0x00, 0x00, 0x00, 0x00, 0x00, 0x01, 0x00] =
    (0x696ad20e, 0x2dd4365c, 0x7459b4a4, 0xa5af743d, 0x5e92c6da, 0x3229e653, 0x2cd605f6, 0x533f2a5b)"
  by code_simp

lemma genesis_tx_outer_digest:
  "sha256 [
      0x69, 0x98, 0x25, 0x11, 0x31, 0x54, 0xee, 0x09, 0xd0, 0xce, 0xb8, 0x72, 0x5d, 0x6d, 0x65, 0x13,
      0x69, 0x83, 0x16, 0xcc, 0xda, 0x67, 0xa1, 0xc6, 0x80, 0x84, 0x9d, 0x90, 0x5d, 0xc1, 0x6d, 0xf8] =
    [
      0x69, 0x6a, 0xd2, 0x0e, 0x2d, 0xd4, 0x36, 0x5c, 0x74, 0x59, 0xb4, 0xa4, 0xa5, 0xaf, 0x74, 0x3d,
      0x5e, 0x92, 0xc6, 0xda, 0x32, 0x29, 0xe6, 0x53, 0x2c, 0xd6, 0x05, 0xf6, 0x53, 0x3f, 0x2a, 0x5b]"
proof -
  have "sha256 [
      0x69, 0x98, 0x25, 0x11, 0x31, 0x54, 0xee, 0x09, 0xd0, 0xce, 0xb8, 0x72, 0x5d, 0x6d, 0x65, 0x13,
      0x69, 0x83, 0x16, 0xcc, 0xda, 0x67, 0xa1, 0xc6, 0x80, 0x84, 0x9d, 0x90, 0x5d, 0xc1, 0x6d, 0xf8] =
    state_bytes (0x696ad20e, 0x2dd4365c, 0x7459b4a4, 0xa5af743d, 0x5e92c6da, 0x3229e653, 0x2cd605f6, 0x533f2a5b)"
    by (simp only: sha256_def Let_def genesis_tx_outer_chunks foldl_Cons foldl_Nil genesis_tx_outer_block1)
  also have "\<dots> =
    [
      0x69, 0x6a, 0xd2, 0x0e, 0x2d, 0xd4, 0x36, 0x5c, 0x74, 0x59, 0xb4, 0xa4, 0xa5, 0xaf, 0x74, 0x3d,
      0x5e, 0x92, 0xc6, 0xda, 0x32, 0x29, 0xe6, 0x53, 0x2c, 0xd6, 0x05, 0xf6, 0x53, 0x3f, 0x2a, 0x5b]"
    by code_simp
  finally show ?thesis .
qed

lemma genesis_tx_dsha256:
  "dsha256 [
      0x01, 0x00, 0x00, 0x00, 0x01, 0x00, 0x00, 0x00, 0x00, 0x00, 0x00, 0x00, 0x00, 0x00, 0x00, 0x00,
      0x00, 0x00, 0x00, 0x00, 0x00, 0x00, 0x00, 0x00, 0x00, 0x00, 0x00, 0x00, 0x00, 0x00, 0x00, 0x00,
      0x00, 0x00, 0x00, 0x00, 0x00, 0xff, 0xff, 0xff, 0xff, 0x10, 0x04, 0xff, 0xff, 0x00, 0x1d, 0x01,
      0x04, 0x08, 0x4e, 0x69, 0x6e, 0x74, 0x6f, 0x6e, 0x64, 0x6f, 0xff, 0xff, 0xff, 0xff, 0x01, 0x00,
      0x58, 0x85, 0x0c, 0x02, 0x00, 0x00, 0x00, 0x43, 0x41, 0x04, 0x01, 0x84, 0x71, 0x0f, 0xa6, 0x89,
      0xad, 0x50, 0x23, 0x69, 0x0c, 0x80, 0xf3, 0xa4, 0x9c, 0x8f, 0x13, 0xf8, 0xd4, 0x5b, 0x8c, 0x85,
      0x7f, 0xbc, 0xbc, 0x8b, 0xc4, 0xa8, 0xe4, 0xd3, 0xeb, 0x4b, 0x10, 0xf4, 0xd4, 0x60, 0x4f, 0xa0,
      0x8d, 0xce, 0x60, 0x1a, 0xaf, 0x0f, 0x47, 0x02, 0x16, 0xfe, 0x1b, 0x51, 0x85, 0x0b, 0x4a, 0xcf,
      0x21, 0xb1, 0x79, 0xc4, 0x50, 0x70, 0xac, 0x7b, 0x03, 0xa9, 0xac, 0x00, 0x00, 0x00, 0x00] =
    0x5b2a3f53f605d62c53e62932dac6925e3d74afa5a4b459745c36d42d0ed26a69"
proof -
  have "uint256_of_bytes [
      0x69, 0x6a, 0xd2, 0x0e, 0x2d, 0xd4, 0x36, 0x5c, 0x74, 0x59, 0xb4, 0xa4, 0xa5, 0xaf, 0x74, 0x3d,
      0x5e, 0x92, 0xc6, 0xda, 0x32, 0x29, 0xe6, 0x53, 0x2c, 0xd6, 0x05, 0xf6, 0x53, 0x3f, 0x2a, 0x5b] =
    (0x5b2a3f53f605d62c53e62932dac6925e3d74afa5a4b459745c36d42d0ed26a69 :: uint256)"
    by code_simp
  then show ?thesis
    by (simp only: dsha256_def genesis_tx_inner_digest genesis_tx_outer_digest)
qed

lemma genesis_header_inner_chunks:
  "chunks64 (sha256_pad [
      0x01, 0x00, 0x00, 0x00, 0x00, 0x00, 0x00, 0x00, 0x00, 0x00, 0x00, 0x00, 0x00, 0x00, 0x00, 0x00,
      0x00, 0x00, 0x00, 0x00, 0x00, 0x00, 0x00, 0x00, 0x00, 0x00, 0x00, 0x00, 0x00, 0x00, 0x00, 0x00,
      0x00, 0x00, 0x00, 0x00, 0x69, 0x6a, 0xd2, 0x0e, 0x2d, 0xd4, 0x36, 0x5c, 0x74, 0x59, 0xb4, 0xa4,
      0xa5, 0xaf, 0x74, 0x3d, 0x5e, 0x92, 0xc6, 0xda, 0x32, 0x29, 0xe6, 0x53, 0x2c, 0xd6, 0x05, 0xf6,
      0x53, 0x3f, 0x2a, 0x5b, 0x24, 0xa6, 0xa1, 0x52, 0xf0, 0xff, 0x0f, 0x1e, 0x67, 0x86, 0x01, 0x00]) =
    [[
      0x01, 0x00, 0x00, 0x00, 0x00, 0x00, 0x00, 0x00, 0x00, 0x00, 0x00, 0x00, 0x00, 0x00, 0x00, 0x00,
      0x00, 0x00, 0x00, 0x00, 0x00, 0x00, 0x00, 0x00, 0x00, 0x00, 0x00, 0x00, 0x00, 0x00, 0x00, 0x00,
      0x00, 0x00, 0x00, 0x00, 0x69, 0x6a, 0xd2, 0x0e, 0x2d, 0xd4, 0x36, 0x5c, 0x74, 0x59, 0xb4, 0xa4,
      0xa5, 0xaf, 0x74, 0x3d, 0x5e, 0x92, 0xc6, 0xda, 0x32, 0x29, 0xe6, 0x53, 0x2c, 0xd6, 0x05, 0xf6],
     [
      0x53, 0x3f, 0x2a, 0x5b, 0x24, 0xa6, 0xa1, 0x52, 0xf0, 0xff, 0x0f, 0x1e, 0x67, 0x86, 0x01, 0x00,
      0x80, 0x00, 0x00, 0x00, 0x00, 0x00, 0x00, 0x00, 0x00, 0x00, 0x00, 0x00, 0x00, 0x00, 0x00, 0x00,
      0x00, 0x00, 0x00, 0x00, 0x00, 0x00, 0x00, 0x00, 0x00, 0x00, 0x00, 0x00, 0x00, 0x00, 0x00, 0x00,
      0x00, 0x00, 0x00, 0x00, 0x00, 0x00, 0x00, 0x00, 0x00, 0x00, 0x00, 0x00, 0x00, 0x00, 0x02, 0x80]]"
  by code_simp

lemma genesis_header_inner_block1:
  "sha256_compress sha256_init
    [
      0x01, 0x00, 0x00, 0x00, 0x00, 0x00, 0x00, 0x00, 0x00, 0x00, 0x00, 0x00, 0x00, 0x00, 0x00, 0x00,
      0x00, 0x00, 0x00, 0x00, 0x00, 0x00, 0x00, 0x00, 0x00, 0x00, 0x00, 0x00, 0x00, 0x00, 0x00, 0x00,
      0x00, 0x00, 0x00, 0x00, 0x69, 0x6a, 0xd2, 0x0e, 0x2d, 0xd4, 0x36, 0x5c, 0x74, 0x59, 0xb4, 0xa4,
      0xa5, 0xaf, 0x74, 0x3d, 0x5e, 0x92, 0xc6, 0xda, 0x32, 0x29, 0xe6, 0x53, 0x2c, 0xd6, 0x05, 0xf6] =
    (0x9f55e2df, 0x9476c242, 0x3d6015b4, 0xf7517ca5, 0xd3baeedd, 0x2ab743b2, 0xe8c009d6, 0x30d0bb23)"
  by code_simp

lemma genesis_header_inner_block2:
  "sha256_compress (0x9f55e2df, 0x9476c242, 0x3d6015b4, 0xf7517ca5, 0xd3baeedd, 0x2ab743b2, 0xe8c009d6, 0x30d0bb23)
    [
      0x53, 0x3f, 0x2a, 0x5b, 0x24, 0xa6, 0xa1, 0x52, 0xf0, 0xff, 0x0f, 0x1e, 0x67, 0x86, 0x01, 0x00,
      0x80, 0x00, 0x00, 0x00, 0x00, 0x00, 0x00, 0x00, 0x00, 0x00, 0x00, 0x00, 0x00, 0x00, 0x00, 0x00,
      0x00, 0x00, 0x00, 0x00, 0x00, 0x00, 0x00, 0x00, 0x00, 0x00, 0x00, 0x00, 0x00, 0x00, 0x00, 0x00,
      0x00, 0x00, 0x00, 0x00, 0x00, 0x00, 0x00, 0x00, 0x00, 0x00, 0x00, 0x00, 0x00, 0x00, 0x02, 0x80] =
    (0xf80fd481, 0x8b1d9676, 0xc9d2111d, 0xfae7e809, 0x70c3199e, 0xd1d57d47, 0x6a78fb81, 0x672fded2)"
  by code_simp

lemma genesis_header_inner_digest:
  "sha256 [
      0x01, 0x00, 0x00, 0x00, 0x00, 0x00, 0x00, 0x00, 0x00, 0x00, 0x00, 0x00, 0x00, 0x00, 0x00, 0x00,
      0x00, 0x00, 0x00, 0x00, 0x00, 0x00, 0x00, 0x00, 0x00, 0x00, 0x00, 0x00, 0x00, 0x00, 0x00, 0x00,
      0x00, 0x00, 0x00, 0x00, 0x69, 0x6a, 0xd2, 0x0e, 0x2d, 0xd4, 0x36, 0x5c, 0x74, 0x59, 0xb4, 0xa4,
      0xa5, 0xaf, 0x74, 0x3d, 0x5e, 0x92, 0xc6, 0xda, 0x32, 0x29, 0xe6, 0x53, 0x2c, 0xd6, 0x05, 0xf6,
      0x53, 0x3f, 0x2a, 0x5b, 0x24, 0xa6, 0xa1, 0x52, 0xf0, 0xff, 0x0f, 0x1e, 0x67, 0x86, 0x01, 0x00] =
    [
      0xf8, 0x0f, 0xd4, 0x81, 0x8b, 0x1d, 0x96, 0x76, 0xc9, 0xd2, 0x11, 0x1d, 0xfa, 0xe7, 0xe8, 0x09,
      0x70, 0xc3, 0x19, 0x9e, 0xd1, 0xd5, 0x7d, 0x47, 0x6a, 0x78, 0xfb, 0x81, 0x67, 0x2f, 0xde, 0xd2]"
proof -
  have "sha256 [
      0x01, 0x00, 0x00, 0x00, 0x00, 0x00, 0x00, 0x00, 0x00, 0x00, 0x00, 0x00, 0x00, 0x00, 0x00, 0x00,
      0x00, 0x00, 0x00, 0x00, 0x00, 0x00, 0x00, 0x00, 0x00, 0x00, 0x00, 0x00, 0x00, 0x00, 0x00, 0x00,
      0x00, 0x00, 0x00, 0x00, 0x69, 0x6a, 0xd2, 0x0e, 0x2d, 0xd4, 0x36, 0x5c, 0x74, 0x59, 0xb4, 0xa4,
      0xa5, 0xaf, 0x74, 0x3d, 0x5e, 0x92, 0xc6, 0xda, 0x32, 0x29, 0xe6, 0x53, 0x2c, 0xd6, 0x05, 0xf6,
      0x53, 0x3f, 0x2a, 0x5b, 0x24, 0xa6, 0xa1, 0x52, 0xf0, 0xff, 0x0f, 0x1e, 0x67, 0x86, 0x01, 0x00] =
    state_bytes (0xf80fd481, 0x8b1d9676, 0xc9d2111d, 0xfae7e809, 0x70c3199e, 0xd1d57d47, 0x6a78fb81, 0x672fded2)"
    by (simp only: sha256_def Let_def genesis_header_inner_chunks foldl_Cons foldl_Nil genesis_header_inner_block1 genesis_header_inner_block2)
  also have "\<dots> =
    [
      0xf8, 0x0f, 0xd4, 0x81, 0x8b, 0x1d, 0x96, 0x76, 0xc9, 0xd2, 0x11, 0x1d, 0xfa, 0xe7, 0xe8, 0x09,
      0x70, 0xc3, 0x19, 0x9e, 0xd1, 0xd5, 0x7d, 0x47, 0x6a, 0x78, 0xfb, 0x81, 0x67, 0x2f, 0xde, 0xd2]"
    by code_simp
  finally show ?thesis .
qed

lemma genesis_header_outer_chunks:
  "chunks64 (sha256_pad [
      0xf8, 0x0f, 0xd4, 0x81, 0x8b, 0x1d, 0x96, 0x76, 0xc9, 0xd2, 0x11, 0x1d, 0xfa, 0xe7, 0xe8, 0x09,
      0x70, 0xc3, 0x19, 0x9e, 0xd1, 0xd5, 0x7d, 0x47, 0x6a, 0x78, 0xfb, 0x81, 0x67, 0x2f, 0xde, 0xd2]) =
    [[
      0xf8, 0x0f, 0xd4, 0x81, 0x8b, 0x1d, 0x96, 0x76, 0xc9, 0xd2, 0x11, 0x1d, 0xfa, 0xe7, 0xe8, 0x09,
      0x70, 0xc3, 0x19, 0x9e, 0xd1, 0xd5, 0x7d, 0x47, 0x6a, 0x78, 0xfb, 0x81, 0x67, 0x2f, 0xde, 0xd2,
      0x80, 0x00, 0x00, 0x00, 0x00, 0x00, 0x00, 0x00, 0x00, 0x00, 0x00, 0x00, 0x00, 0x00, 0x00, 0x00,
      0x00, 0x00, 0x00, 0x00, 0x00, 0x00, 0x00, 0x00, 0x00, 0x00, 0x00, 0x00, 0x00, 0x00, 0x01, 0x00]]"
  by code_simp

lemma genesis_header_outer_block1:
  "sha256_compress sha256_init
    [
      0xf8, 0x0f, 0xd4, 0x81, 0x8b, 0x1d, 0x96, 0x76, 0xc9, 0xd2, 0x11, 0x1d, 0xfa, 0xe7, 0xe8, 0x09,
      0x70, 0xc3, 0x19, 0x9e, 0xd1, 0xd5, 0x7d, 0x47, 0x6a, 0x78, 0xfb, 0x81, 0x67, 0x2f, 0xde, 0xd2,
      0x80, 0x00, 0x00, 0x00, 0x00, 0x00, 0x00, 0x00, 0x00, 0x00, 0x00, 0x00, 0x00, 0x00, 0x00, 0x00,
      0x00, 0x00, 0x00, 0x00, 0x00, 0x00, 0x00, 0x00, 0x00, 0x00, 0x00, 0x00, 0x00, 0x00, 0x01, 0x00] =
    (0x9156352c, 0x1818b32e, 0x90c9e792, 0xefd6a11a, 0x82fe7956, 0xa630f03b, 0xbee236ce, 0xdae3911a)"
  by code_simp

lemma genesis_header_outer_digest:
  "sha256 [
      0xf8, 0x0f, 0xd4, 0x81, 0x8b, 0x1d, 0x96, 0x76, 0xc9, 0xd2, 0x11, 0x1d, 0xfa, 0xe7, 0xe8, 0x09,
      0x70, 0xc3, 0x19, 0x9e, 0xd1, 0xd5, 0x7d, 0x47, 0x6a, 0x78, 0xfb, 0x81, 0x67, 0x2f, 0xde, 0xd2] =
    [
      0x91, 0x56, 0x35, 0x2c, 0x18, 0x18, 0xb3, 0x2e, 0x90, 0xc9, 0xe7, 0x92, 0xef, 0xd6, 0xa1, 0x1a,
      0x82, 0xfe, 0x79, 0x56, 0xa6, 0x30, 0xf0, 0x3b, 0xbe, 0xe2, 0x36, 0xce, 0xda, 0xe3, 0x91, 0x1a]"
proof -
  have "sha256 [
      0xf8, 0x0f, 0xd4, 0x81, 0x8b, 0x1d, 0x96, 0x76, 0xc9, 0xd2, 0x11, 0x1d, 0xfa, 0xe7, 0xe8, 0x09,
      0x70, 0xc3, 0x19, 0x9e, 0xd1, 0xd5, 0x7d, 0x47, 0x6a, 0x78, 0xfb, 0x81, 0x67, 0x2f, 0xde, 0xd2] =
    state_bytes (0x9156352c, 0x1818b32e, 0x90c9e792, 0xefd6a11a, 0x82fe7956, 0xa630f03b, 0xbee236ce, 0xdae3911a)"
    by (simp only: sha256_def Let_def genesis_header_outer_chunks foldl_Cons foldl_Nil genesis_header_outer_block1)
  also have "\<dots> =
    [
      0x91, 0x56, 0x35, 0x2c, 0x18, 0x18, 0xb3, 0x2e, 0x90, 0xc9, 0xe7, 0x92, 0xef, 0xd6, 0xa1, 0x1a,
      0x82, 0xfe, 0x79, 0x56, 0xa6, 0x30, 0xf0, 0x3b, 0xbe, 0xe2, 0x36, 0xce, 0xda, 0xe3, 0x91, 0x1a]"
    by code_simp
  finally show ?thesis .
qed

lemma genesis_header_dsha256:
  "dsha256 [
      0x01, 0x00, 0x00, 0x00, 0x00, 0x00, 0x00, 0x00, 0x00, 0x00, 0x00, 0x00, 0x00, 0x00, 0x00, 0x00,
      0x00, 0x00, 0x00, 0x00, 0x00, 0x00, 0x00, 0x00, 0x00, 0x00, 0x00, 0x00, 0x00, 0x00, 0x00, 0x00,
      0x00, 0x00, 0x00, 0x00, 0x69, 0x6a, 0xd2, 0x0e, 0x2d, 0xd4, 0x36, 0x5c, 0x74, 0x59, 0xb4, 0xa4,
      0xa5, 0xaf, 0x74, 0x3d, 0x5e, 0x92, 0xc6, 0xda, 0x32, 0x29, 0xe6, 0x53, 0x2c, 0xd6, 0x05, 0xf6,
      0x53, 0x3f, 0x2a, 0x5b, 0x24, 0xa6, 0xa1, 0x52, 0xf0, 0xff, 0x0f, 0x1e, 0x67, 0x86, 0x01, 0x00] =
    0x1a91e3dace36e2be3bf030a65679fe821aa1d6ef92e7c9902eb318182c355691"
proof -
  have "uint256_of_bytes [
      0x91, 0x56, 0x35, 0x2c, 0x18, 0x18, 0xb3, 0x2e, 0x90, 0xc9, 0xe7, 0x92, 0xef, 0xd6, 0xa1, 0x1a,
      0x82, 0xfe, 0x79, 0x56, 0xa6, 0x30, 0xf0, 0x3b, 0xbe, 0xe2, 0x36, 0xce, 0xda, 0xe3, 0x91, 0x1a] =
    (0x1a91e3dace36e2be3bf030a65679fe821aa1d6ef92e7c9902eb318182c355691 :: uint256)"
    by code_simp
  then show ?thesis
    by (simp only: dsha256_def genesis_header_inner_digest genesis_header_outer_digest)
qed

lemma genesis_txNew_bytes:
  "Serialize_CTransaction
     (CreateGenesisBlock_txNew ''Nintondo''
        (push_opcode (push_data []
          (ParseHex ''040184710fa689ad5023690c80f3a49c8f13f8d45b8c857fbcbc8bc4a8e4d3eb4b10f4d4604fa08dce601aaf0f470216fe1b51850b4acf21b179c45070ac7b03a9''))
          OP_CHECKSIG)
        (88 * COIN)) =
    [
      0x01, 0x00, 0x00, 0x00, 0x01, 0x00, 0x00, 0x00, 0x00, 0x00, 0x00, 0x00, 0x00, 0x00, 0x00, 0x00,
      0x00, 0x00, 0x00, 0x00, 0x00, 0x00, 0x00, 0x00, 0x00, 0x00, 0x00, 0x00, 0x00, 0x00, 0x00, 0x00,
      0x00, 0x00, 0x00, 0x00, 0x00, 0xff, 0xff, 0xff, 0xff, 0x10, 0x04, 0xff, 0xff, 0x00, 0x1d, 0x01,
      0x04, 0x08, 0x4e, 0x69, 0x6e, 0x74, 0x6f, 0x6e, 0x64, 0x6f, 0xff, 0xff, 0xff, 0xff, 0x01, 0x00,
      0x58, 0x85, 0x0c, 0x02, 0x00, 0x00, 0x00, 0x43, 0x41, 0x04, 0x01, 0x84, 0x71, 0x0f, 0xa6, 0x89,
      0xad, 0x50, 0x23, 0x69, 0x0c, 0x80, 0xf3, 0xa4, 0x9c, 0x8f, 0x13, 0xf8, 0xd4, 0x5b, 0x8c, 0x85,
      0x7f, 0xbc, 0xbc, 0x8b, 0xc4, 0xa8, 0xe4, 0xd3, 0xeb, 0x4b, 0x10, 0xf4, 0xd4, 0x60, 0x4f, 0xa0,
      0x8d, 0xce, 0x60, 0x1a, 0xaf, 0x0f, 0x47, 0x02, 0x16, 0xfe, 0x1b, 0x51, 0x85, 0x0b, 0x4a, 0xcf,
      0x21, 0xb1, 0x79, 0xc4, 0x50, 0x70, 0xac, 0x7b, 0x03, 0xa9, 0xac, 0x00, 0x00, 0x00, 0x00]"
  by code_simp

lemma CreateGenesisBlock_script_header:
  "blk_header (CreateGenesisBlock_script H pszTimestamp genesisOutputScript time nonce bits version
       reward) =
    CBlockHeader version 0
      (H (Serialize_CTransaction
            (CreateGenesisBlock_txNew pszTimestamp genesisOutputScript reward)))
      time bits nonce None"
  by (simp add: CreateGenesisBlock_script_def BlockMerkleRoot_def MakeTransactionRef_def Let_def)

lemma genesis_header_of_hash:
  "blk_header (CreateGenesisBlock H time nonce bits version reward) =
    CBlockHeader version 0
      (H (Serialize_CTransaction
            (CreateGenesisBlock_txNew ''Nintondo''
               (push_opcode (push_data []
                 (ParseHex ''040184710fa689ad5023690c80f3a49c8f13f8d45b8c857fbcbc8bc4a8e4d3eb4b10f4d4604fa08dce601aaf0f470216fe1b51850b4acf21b179c45070ac7b03a9''))
                 OP_CHECKSIG)
               reward)))
      time bits nonce None"
  by (simp only: CreateGenesisBlock_def Let_def CreateGenesisBlock_script_header)

lemma genesis_header_bytes:
  "Serialize_CBlockHeader ser_tx SER_GETHASH
     (CBlockHeader 1 0 0x5b2a3f53f605d62c53e62932dac6925e3d74afa5a4b459745c36d42d0ed26a69 1386325540 0x1e0ffff0 99943 None) =
    Some [
      0x01, 0x00, 0x00, 0x00, 0x00, 0x00, 0x00, 0x00, 0x00, 0x00, 0x00, 0x00, 0x00, 0x00, 0x00, 0x00,
      0x00, 0x00, 0x00, 0x00, 0x00, 0x00, 0x00, 0x00, 0x00, 0x00, 0x00, 0x00, 0x00, 0x00, 0x00, 0x00,
      0x00, 0x00, 0x00, 0x00, 0x69, 0x6a, 0xd2, 0x0e, 0x2d, 0xd4, 0x36, 0x5c, 0x74, 0x59, 0xb4, 0xa4,
      0xa5, 0xaf, 0x74, 0x3d, 0x5e, 0x92, 0xc6, 0xda, 0x32, 0x29, 0xe6, 0x53, 0x2c, 0xd6, 0x05, 0xf6,
      0x53, 0x3f, 0x2a, 0x5b, 0x24, 0xa6, 0xa1, 0x52, 0xf0, 0xff, 0x0f, 0x1e, 0x67, 0x86, 0x01, 0x00]"
  by code_simp

text \<open>
  C9. The genesis block built by \<^verbatim>\<open>CreateGenesisBlock\<close> from the time 1386325540, the
  nonce 99943, the bits \<open>0x1e0ffff0\<close>, the version 1 and the reward \<open>88 * COIN\<close>, with the
  timestamp "Nintondo" in the coinbase script and the output script of the fixed 65-byte
  public key followed by \<^verbatim>\<open>OP_CHECKSIG\<close>, has a header whose double SHA-256 is
  \<open>0x1a91e3dace36e2be3bf030a65679fe821aa1d6ef92e7c9902eb318182c355691\<close> and whose Merkle
  root is \<open>0x5b2a3f53f605d62c53e62932dac6925e3d74afa5a4b459745c36d42d0ed26a69\<close>: the two
  assertions of the constructor of \<^verbatim>\<open>CMainParams\<close> hold.
\<close>

theorem mainnet_genesis_block:
  "GetHash dsha256 Serialize_CTransaction
     (blk_header (CreateGenesisBlock dsha256 1386325540 99943 0x1e0ffff0 1 (88 * COIN)))
     = Some 0x1a91e3dace36e2be3bf030a65679fe821aa1d6ef92e7c9902eb318182c355691
   \<and> hashMerkleRoot
       (blk_header (CreateGenesisBlock dsha256 1386325540 99943 0x1e0ffff0 1 (88 * COIN)))
     = 0x5b2a3f53f605d62c53e62932dac6925e3d74afa5a4b459745c36d42d0ed26a69"
  by (simp only: genesis_header_of_hash genesis_txNew_bytes genesis_tx_dsha256 GetHash_def
      SerializeHash_CBlockHeader_def genesis_header_bytes option.map genesis_header_dsha256
      CBlockHeader.sel simp_thms)

end
